theory Spec2Isabelle
  imports Main "HOL-Library.AList" "HOL-Library.Sublist"
begin

section \<open>Data model of package nettest\<close>

text \<open>
  Go strings are byte strings: \<^typ>\<open>string\<close> (a list of 8-bit \<^typ>\<open>char\<close>).
  The Kubernetes objects carry only the fields the package reads or writes.
\<close>

record NodeCondition =
  cond_Type :: string
  cond_Status :: string

record NodeAddress =
  addr_Type :: string
  addr_Address :: string

record Node =
  node_Name :: string
  node_Conditions :: "NodeCondition list"
  node_Addresses :: "NodeAddress list"

definition NodeReady :: string where "NodeReady = ''Ready''"
definition ConditionTrue :: string where "ConditionTrue = ''True''"
definition NodeInternalIP :: string where "NodeInternalIP = ''InternalIP''"
definition PodRunning :: string where "PodRunning = ''Running''"

record ContainerStatus =
  cs_Ready :: bool

record PodStatus =
  status_Phase :: string
  status_ContainerStatuses :: "ContainerStatus list"
  status_PodIP :: string

text \<open>A pod of namespace kube-system as \<open>DiscoverCoreDNSPods\<close> reads it.\<close>

record SystemPod =
  sys_Name :: string
  sys_Status :: PodStatus

text \<open>The pod object \<open>CreateTestPods\<close> submits.\<close>

record Pod =
  pod_Name :: string
  pod_Namespace :: string
  pod_Labels :: "(string \<times> string) list"
  pod_NodeName :: string
  pod_RestartPolicy :: string
  pod_Image :: string
  pod_Command :: "string list"
  pod_TolerateAll :: bool

record TestPod =
  Name :: string
  NodeName :: string
  PodIP :: string

record TestResult =
  SourceNode :: string
  SourcePod :: string
  TestType :: string
  Target :: string
  Success :: bool
  Error :: string

record TestSummary =
  Total :: int
  Passed :: int
  Failed :: int

record NetworkTestReport =
  Timestamp :: nat
  NodeCount :: int
  PodCount :: int
  TestResults :: "TestResult list"
  Summary :: TestSummary

definition testNamespace :: string where "testNamespace = ''cluster-probe-nettest''"
definition testPodPrefix :: string where "testPodPrefix = ''nettest-''"
definition testImage :: string where "testImage = ''busybox:1.36''"
text \<open>
  The listen port is the integer 8080 in the source, which only ever formats it with
  \<open>%d\<close>; the model keeps that decimal text.
\<close>

definition testListenPort :: string where "testListenPort = ''8080''"

section \<open>The cluster as the package sees it\<close>

text \<open>
  The API server answers with an error value or a result. Only the two classes the
  package tests for (\<open>errors.IsAlreadyExists\<close>, \<open>errors.IsNotFound\<close>) are told apart.
\<close>

datatype api_error = AlreadyExists | NotFound | OtherError string

definition IsAlreadyExists :: "api_error \<Rightarrow> bool" where
  "IsAlreadyExists e = (e = AlreadyExists)"

definition IsNotFound :: "api_error \<Rightarrow> bool" where
  "IsNotFound e = (e = NotFound)"

text \<open>
  The client (\<open>kubernetes.Interface\<close> and the remote-exec helper \<open>ExecInPod\<close>) is a
  parameter: a record of operations on a cluster state \<open>'w\<close>, each returning its answer
  and the next state. Namespace operations act on the fixed diagnostic namespace,
  \<open>pods_Create\<close> and \<open>pods_Get\<close> on the pods in it, \<open>endpoints_Get\<close> and \<open>pods_List\<close> on
  kube-system. \<open>ExecInPod\<close> answers with the error text of a failed command.

  Time is the environment's too: \<open>cleanupTicks\<close> and \<open>readyTicks\<close> are the numbers of
  timer ticks a wait loop receives before its context is done (nominally 30 s / 1 s and
  90 s / 2 s), \<open>clock\<close> is the wall clock, and \<open>sched\<close> is the order in which the
  goroutines of \<open>RunAllTests\<close> append their batches.
\<close>

record 'w client =
  ns_Create :: "'w \<Rightarrow> api_error option \<times> 'w"
  ns_Delete :: "'w \<Rightarrow> api_error option \<times> 'w"
  ns_Get :: "'w \<Rightarrow> api_error option \<times> 'w"
  nodes_List :: "'w \<Rightarrow> (api_error + Node list) \<times> 'w"
  pods_Create :: "Pod \<Rightarrow> 'w \<Rightarrow> api_error option \<times> 'w"
  pods_Get :: "string \<Rightarrow> 'w \<Rightarrow> (api_error + PodStatus) \<times> 'w"
  endpoints_Get :: "string \<Rightarrow> 'w \<Rightarrow> (api_error + string list list) \<times> 'w"
  pods_List :: "'w \<Rightarrow> (api_error + SystemPod list) \<times> 'w"
  ExecInPod :: "string \<Rightarrow> string list \<Rightarrow> 'w \<Rightarrow> string option \<times> 'w"
  cleanupTicks :: nat
  readyTicks :: nat
  clock :: "'w \<Rightarrow> nat"
  sched :: "nat list"

datatype run_error =
    ErrCreateNamespace api_error
  | ErrListNodes api_error
  | ErrNoReadyNodes
  | ErrCreateTestPods string api_error
  | ErrPodsNotReady string

datatype discover_error = ErrListSystemPods api_error | ErrNoCoreDNSPods

section \<open>Polling\<close>

text \<open>
  \<open>wait.PollUntilContextTimeout\<close> and \<open>wait.PollUntilContextCancel\<close> with
  \<open>immediate = true\<close>: the condition runs once at once, then once per timer tick until it
  holds or the context is done. \<open>None\<close> is the context's error. The remaining ticks are
  returned, since \<open>WaitForPodsReady\<close> shares one deadline among all its pods.
\<close>

fun pollTicks :: "('w \<Rightarrow> 'a option \<times> 'w) \<Rightarrow> nat \<Rightarrow> 'w \<Rightarrow> 'a option \<times> nat \<times> 'w" where
  "pollTicks cond 0 s = (None, 0, s)"
| "pollTicks cond (Suc n) s =
     (case cond s of
        (Some a, s') \<Rightarrow> (Some a, n, s')
      | (None, s') \<Rightarrow> pollTicks cond n s')"

definition pollImmediate :: "('w \<Rightarrow> 'a option \<times> 'w) \<Rightarrow> nat \<Rightarrow> 'w \<Rightarrow> 'a option \<times> nat \<times> 'w" where
  "pollImmediate cond ticks s =
     (case cond s of
        (Some a, s') \<Rightarrow> (Some a, ticks, s')
      | (None, s') \<Rightarrow> pollTicks cond ticks s')"

section \<open>Workload provisioning and teardown\<close>

definition EnsureNamespace :: "'w client \<Rightarrow> 'w \<Rightarrow> api_error option \<times> 'w" where
  "EnsureNamespace cl s =
     (case ns_Create cl s of
        (Some err, s') \<Rightarrow> if \<not> IsAlreadyExists err then (Some err, s') else (None, s')
      | (None, s') \<Rightarrow> (None, s'))"

text \<open>The condition polled by \<open>CleanupTestPods\<close>: the namespace is gone.\<close>

definition namespaceGone :: "'w client \<Rightarrow> 'w \<Rightarrow> unit option \<times> 'w" where
  "namespaceGone cl s =
     (case ns_Get cl s of
        (Some err, s') \<Rightarrow> (if IsNotFound err then Some () else None, s')
      | (None, s') \<Rightarrow> (None, s'))"

definition CleanupTestPods :: "'w client \<Rightarrow> 'w \<Rightarrow> api_error option \<times> 'w" where
  "CleanupTestPods cl s =
     (case ns_Delete cl s of
        (Some err, s') \<Rightarrow> if \<not> IsNotFound err then (Some err, s') else (None, s')
      | (None, s') \<Rightarrow>
          (case pollImmediate (namespaceGone cl) (cleanupTicks cl) s' of
             (_, _, s'') \<Rightarrow> (None, s'')))"

text \<open>The numeric value of a byte, for the comparisons and the \<open>c+32\<close> of the source.\<close>

definition byte :: "char \<Rightarrow> nat" where
  "byte c = of_char c"

text \<open>One round of the loop of \<open>sanitizeNodeName\<close>: the byte it appends for \<open>c\<close>.\<close>

definition sanitizeByte :: "char \<Rightarrow> char" where
  "sanitizeByte c =
     (if (byte c \<ge> byte CHR ''a'' \<and> byte c \<le> byte CHR ''z'')
          \<or> (byte c \<ge> byte CHR ''0'' \<and> byte c \<le> byte CHR ''9'') \<or> c = CHR ''-'' then c
      else if byte c \<ge> byte CHR ''A'' \<and> byte c \<le> byte CHR ''Z'' then char_of (byte c + 32)
      else CHR ''-'')"

definition sanitizeNodeName :: "string \<Rightarrow> string" where
  "sanitizeNodeName name =
     (let result = map sanitizeByte name
      in if length result > 50 then take 50 result else result)"

definition testPodFor :: "Node \<Rightarrow> Pod" where
  "testPodFor node =
     \<lparr> pod_Name = testPodPrefix @ sanitizeNodeName (node_Name node),
       pod_Namespace = testNamespace,
       pod_Labels = [(''app.kubernetes.io/name'', ''cluster-probe''),
                     (''app.kubernetes.io/component'', ''network-test''),
                     (''cluster-probe/node'', node_Name node)],
       pod_NodeName = node_Name node,
       pod_RestartPolicy = ''Never'',
       pod_Image = testImage,
       pod_Command = [''sleep'', ''3600''],
       pod_TolerateAll = True \<rparr>"

fun createLoop :: "'w client \<Rightarrow> Node list \<Rightarrow> TestPod list \<Rightarrow> 'w
    \<Rightarrow> (string \<times> api_error + TestPod list) \<times> 'w" where
  "createLoop cl [] testPods s = (Inr testPods, s)"
| "createLoop cl (node # nodes) testPods s =
     (let podName = testPodPrefix @ sanitizeNodeName (node_Name node);
          added = testPods @ [\<lparr> Name = podName, NodeName = node_Name node, PodIP = [] \<rparr>]
      in case pods_Create cl (testPodFor node) s of
           (Some err, s') \<Rightarrow>
             if IsAlreadyExists err then createLoop cl nodes added s'
             else (Inl (node_Name node, err), s')
         | (None, s') \<Rightarrow> createLoop cl nodes added s')"

definition CreateTestPods :: "'w client \<Rightarrow> Node list \<Rightarrow> 'w
    \<Rightarrow> (string \<times> api_error + TestPod list) \<times> 'w" where
  "CreateTestPods cl nodes s = createLoop cl nodes [] s"

section \<open>Readiness synchronisation\<close>

text \<open>The loop over \<open>p.Status.ContainerStatuses\<close> inside the polled condition.\<close>

fun containersReady :: "ContainerStatus list \<Rightarrow> bool" where
  "containersReady [] = True"
| "containersReady (cs # rest) = (if \<not> cs_Ready cs then False else containersReady rest)"

text \<open>
  The condition polled by \<open>WaitForPodsReady\<close> for one pod. \<open>Some ip\<close> is the closure
  returning true after it has stored \<open>ip\<close> in the pod's \<open>PodIP\<close>.
\<close>

definition podReadyCheck :: "'w client \<Rightarrow> string \<Rightarrow> 'w \<Rightarrow> string option \<times> 'w" where
  "podReadyCheck cl podName s =
     (case pods_Get cl podName s of
        (Inl err, s') \<Rightarrow> (None, s')
      | (Inr p, s') \<Rightarrow>
          if status_Phase p \<noteq> PodRunning then (None, s')
          else if \<not> containersReady (status_ContainerStatuses p) then (None, s')
          else (Some (status_PodIP p), s'))"

fun waitLoop :: "'w client \<Rightarrow> TestPod list \<Rightarrow> TestPod list \<Rightarrow> nat \<Rightarrow> 'w
    \<Rightarrow> (string + TestPod list) \<times> 'w" where
  "waitLoop cl ready [] ticks s = (Inr ready, s)"
| "waitLoop cl ready (pod # pods) ticks s =
     (case pollImmediate (podReadyCheck cl (Name pod)) ticks s of
        (None, ticks', s') \<Rightarrow> (Inl (Name pod), s')
      | (Some ip, ticks', s') \<Rightarrow> waitLoop cl (ready @ [pod\<lparr>PodIP := ip\<rparr>]) pods ticks' s')"

text \<open>
  The source updates the pods in place through \<open>&pods[i]\<close>; the model returns the
  updated list, which \<open>Run\<close> goes on with. The timeout argument (90 s in \<open>Run\<close>)
  is the client's \<open>readyTicks\<close>.
\<close>

definition WaitForPodsReady :: "'w client \<Rightarrow> TestPod list \<Rightarrow> 'w
    \<Rightarrow> (string + TestPod list) \<times> 'w" where
  "WaitForPodsReady cl pods s = waitLoop cl [] pods (readyTicks cl) s"

section \<open>Topology discovery\<close>

fun readyLoop :: "NodeCondition list \<Rightarrow> Node \<Rightarrow> Node list \<Rightarrow> Node list" where
  "readyLoop [] node ready = ready"
| "readyLoop (c # conds) node ready =
     (if cond_Type c = NodeReady \<and> cond_Status c = ConditionTrue then ready @ [node]
      else readyLoop conds node ready)"

definition filterReadyNodes :: "Node list \<Rightarrow> Node list" where
  "filterReadyNodes nodes = fold (\<lambda>node ready. readyLoop (node_Conditions node) node ready) nodes []"

text \<open>
  \<open>containsSubstring\<close> compares \<open>s[i:i+len(substr)]\<close> for \<open>i\<close> from 0 to
  \<open>len(s)-len(substr)\<close>; the bound is a signed int, so the loop body never runs when
  \<open>substr\<close> is the longer one.
\<close>

definition containsSubstring :: "string \<Rightarrow> string \<Rightarrow> bool" where
  "containsSubstring s substr =
     (if length s < length substr then False
      else list_ex (\<lambda>i. take (length substr) (drop i s) = substr)
             [0 ..< Suc (length s - length substr)])"

definition contains :: "string \<Rightarrow> string \<Rightarrow> bool" where
  "contains s substr =
     (length s \<ge> length substr \<and> (s = substr \<or> (length s > 0 \<and> containsSubstring s substr)))"

definition containsDNSComponent :: "string \<Rightarrow> bool" where
  "containsDNSComponent name = (contains name ''coredns'' \<or> contains name ''kube-dns'')"

definition serviceNames :: "string list" where
  "serviceNames = [''kube-dns'', ''coredns'', ''rke2-coredns-rke2-coredns'']"

text \<open>
  The loop over the service names: \<open>True\<close> when it returned \<open>dnsIPs\<close> from inside the
  loop, \<open>False\<close> when it ran to its end.
\<close>

fun endpointLoop :: "'w client \<Rightarrow> string list \<Rightarrow> string list \<Rightarrow> 'w
    \<Rightarrow> bool \<times> string list \<times> 'w" where
  "endpointLoop cl [] dnsIPs s = (False, dnsIPs, s)"
| "endpointLoop cl (name # names) dnsIPs s =
     (case endpoints_Get cl name s of
        (Inl err, s') \<Rightarrow> endpointLoop cl names dnsIPs s'
      | (Inr subsets, s') \<Rightarrow>
          (let dnsIPs' = dnsIPs @ concat subsets
           in if length dnsIPs' > 0 then (True, dnsIPs', s')
              else endpointLoop cl names dnsIPs' s'))"

fun systemPodLoop :: "SystemPod list \<Rightarrow> string list \<Rightarrow> string list" where
  "systemPodLoop [] dnsIPs = dnsIPs"
| "systemPodLoop (pod # pods) dnsIPs =
     (if containsDNSComponent (sys_Name pod)
         \<and> status_Phase (sys_Status pod) = PodRunning
         \<and> status_PodIP (sys_Status pod) \<noteq> []
      then systemPodLoop pods (dnsIPs @ [status_PodIP (sys_Status pod)])
      else systemPodLoop pods dnsIPs)"

definition DiscoverCoreDNSPods :: "'w client \<Rightarrow> 'w \<Rightarrow> (discover_error + string list) \<times> 'w" where
  "DiscoverCoreDNSPods cl s =
     (case endpointLoop cl serviceNames [] s of
        (True, dnsIPs, s1) \<Rightarrow> (Inr dnsIPs, s1)
      | (False, dnsIPs, s1) \<Rightarrow>
          (case pods_List cl s1 of
             (Inl err, s2) \<Rightarrow> (Inl (ErrListSystemPods err), s2)
           | (Inr pods, s2) \<Rightarrow>
               (let dnsIPs' = systemPodLoop pods dnsIPs
                in if length dnsIPs' = 0 then (Inl ErrNoCoreDNSPods, s2)
                   else (Inr dnsIPs', s2))))"

text \<open>
  A Go map is an association list with distinct keys; \<open>range\<close> visits it in the order
  of the list. Go leaves that order open, and no theorem below depends on it.
\<close>

fun firstInternalIP :: "NodeAddress list \<Rightarrow> string option" where
  "firstInternalIP [] = None"
| "firstInternalIP (a # addrs) =
     (if addr_Type a = NodeInternalIP then Some (addr_Address a) else firstInternalIP addrs)"

definition GetNodeInternalIPs :: "Node list \<Rightarrow> (string \<times> string) list" where
  "GetNodeInternalIPs nodes =
     fold (\<lambda>node nodeIPs.
             case firstInternalIP (node_Addresses node) of
               Some a \<Rightarrow> AList.update (node_Name node) a nodeIPs
             | None \<Rightarrow> nodeIPs) nodes []"

section \<open>The probes\<close>

text \<open>
  The struct literal every test function fills in: \<open>Success\<close> is \<open>err == nil\<close>, and
  \<open>Error\<close> is \<open>err.Error()\<close> when there is an error.
\<close>

definition probeResult :: "TestPod \<Rightarrow> string \<Rightarrow> string \<Rightarrow> string option \<Rightarrow> TestResult" where
  "probeResult pod ty target err =
     \<lparr> SourceNode = NodeName pod, SourcePod = Name pod, TestType = ty, Target = target,
       Success = (err = None), Error = (case err of None \<Rightarrow> [] | Some text \<Rightarrow> text) \<rparr>"

fun coreDNSLoop :: "'w client \<Rightarrow> TestPod \<Rightarrow> string list \<Rightarrow> TestResult list \<Rightarrow> 'w
    \<Rightarrow> TestResult list \<times> 'w" where
  "coreDNSLoop cl pod [] results s = (results, s)"
| "coreDNSLoop cl pod (ip # ips) results s =
     (case ExecInPod cl (Name pod) [''nc'', ''-z'', ''-w'', ''3'', ip, ''53''] s of
        (err, s') \<Rightarrow>
          coreDNSLoop cl pod ips (results @ [probeResult pod ''coredns'' (ip @ '':53'') err]) s')"

definition TestCoreDNSConnectivity :: "'w client \<Rightarrow> TestPod \<Rightarrow> string list \<Rightarrow> 'w
    \<Rightarrow> TestResult list \<times> 'w" where
  "TestCoreDNSConnectivity cl pod dnsIPs s = coreDNSLoop cl pod dnsIPs [] s"

definition TestDNSResolution :: "'w client \<Rightarrow> TestPod \<Rightarrow> 'w \<Rightarrow> TestResult \<times> 'w" where
  "TestDNSResolution cl pod s =
     (case ExecInPod cl (Name pod) [''nslookup'', ''github.com''] s of
        (err, s') \<Rightarrow> (probeResult pod ''dns'' ''github.com'' err, s'))"

definition TestExternalTCP :: "'w client \<Rightarrow> TestPod \<Rightarrow> 'w \<Rightarrow> TestResult \<times> 'w" where
  "TestExternalTCP cl pod s =
     (case ExecInPod cl (Name pod) [''nc'', ''-z'', ''-w'', ''5'', ''github.com'', ''443''] s of
        (err, s') \<Rightarrow> (probeResult pod ''external-tcp'' ''github.com:443'' err, s'))"

fun kubeletLoop :: "'w client \<Rightarrow> TestPod \<Rightarrow> (string \<times> string) list \<Rightarrow> TestResult list \<Rightarrow> 'w
    \<Rightarrow> TestResult list \<times> 'w" where
  "kubeletLoop cl pod [] results s = (results, s)"
| "kubeletLoop cl pod ((nodeName, nodeIP) # rest) results s =
     (if nodeName = NodeName pod then kubeletLoop cl pod rest results s
      else
        (case ExecInPod cl (Name pod) [''nc'', ''-z'', ''-w'', ''3'', nodeIP, ''10250''] s of
           (err, s') \<Rightarrow>
             kubeletLoop cl pod rest
               (results @ [probeResult pod ''kubelet''
                             (nodeIP @ '':10250 ('' @ nodeName @ '')'') err]) s'))"

definition TestKubeletConnectivity :: "'w client \<Rightarrow> TestPod \<Rightarrow> (string \<times> string) list \<Rightarrow> 'w
    \<Rightarrow> TestResult list \<times> 'w" where
  "TestKubeletConnectivity cl pod nodeIPs s = kubeletLoop cl pod nodeIPs [] s"

fun podToPodLoop :: "'w client \<Rightarrow> TestPod \<Rightarrow> TestPod list \<Rightarrow> TestResult list \<Rightarrow> 'w
    \<Rightarrow> TestResult list \<times> 'w" where
  "podToPodLoop cl sourcePod [] results s = (results, s)"
| "podToPodLoop cl sourcePod (targetPod # rest) results s =
     (if Name targetPod = Name sourcePod then podToPodLoop cl sourcePod rest results s
      else
        (case ExecInPod cl (Name sourcePod)
                [''nc'', ''-z'', ''-w'', ''3'', PodIP targetPod, testListenPort] s of
           (err, s') \<Rightarrow>
             podToPodLoop cl sourcePod rest
               (results @ [probeResult sourcePod ''pod-to-pod''
                             (PodIP targetPod @ '':'' @ testListenPort
                                @ '' ('' @ NodeName targetPod @ '')'') err]) s'))"

definition TestPodToPod :: "'w client \<Rightarrow> TestPod \<Rightarrow> TestPod list \<Rightarrow> 'w
    \<Rightarrow> TestResult list \<times> 'w" where
  "TestPodToPod cl sourcePod allPods s = podToPodLoop cl sourcePod allPods [] s"

definition RunPodTests :: "'w client \<Rightarrow> TestPod \<Rightarrow> string list \<Rightarrow> (string \<times> string) list
    \<Rightarrow> TestPod list \<Rightarrow> 'w \<Rightarrow> TestResult list \<times> 'w" where
  "RunPodTests cl pod coreDNSIPs nodeIPs allPods s =
     (case TestCoreDNSConnectivity cl pod coreDNSIPs s of (r1, s1) \<Rightarrow>
      case TestDNSResolution cl pod s1 of (r2, s2) \<Rightarrow>
      case TestExternalTCP cl pod s2 of (r3, s3) \<Rightarrow>
      case TestKubeletConnectivity cl pod nodeIPs s3 of (r4, s4) \<Rightarrow>
      case TestPodToPod cl pod allPods s4 of (r5, s5) \<Rightarrow>
        (r1 @ [r2] @ [r3] @ r4 @ r5, s5))"

section \<open>Listeners, fan-out and aggregation\<close>

fun StartListeners :: "'w client \<Rightarrow> TestPod list \<Rightarrow> 'w \<Rightarrow> 'w" where
  "StartListeners cl [] s = s"
| "StartListeners cl (pod # pods) s =
     (case ExecInPod cl (Name pod) [''sh'', ''-c'', ''nc -l -p '' @ testListenPort @ '' &''] s of
        (_, s') \<Rightarrow> StartListeners cl pods s')"

text \<open>
  \<open>RunAllTests\<close> starts one goroutine per pod; each appends its whole batch under the
  mutex. The batches are appended in the order \<open>sched\<close> when that is a permutation of
  the pod indices, and in the order of the pods otherwise; the exec outcomes are the
  cluster's, whatever the interleaving.
\<close>

definition schedule :: "nat list \<Rightarrow> nat \<Rightarrow> nat list" where
  "schedule order n =
     (if length order = n \<and> distinct order \<and> list_all (\<lambda>i. i < n) order then order
      else [0 ..< n])"

fun runTasks :: "'w client \<Rightarrow> TestPod list \<Rightarrow> string list \<Rightarrow> (string \<times> string) list
    \<Rightarrow> TestPod list \<Rightarrow> TestResult list \<Rightarrow> 'w \<Rightarrow> TestResult list \<times> 'w" where
  "runTasks cl [] coreDNSIPs nodeIPs pods results s = (results, s)"
| "runTasks cl (p # tasks) coreDNSIPs nodeIPs pods results s =
     (case RunPodTests cl p coreDNSIPs nodeIPs pods s of
        (podResults, s') \<Rightarrow> runTasks cl tasks coreDNSIPs nodeIPs pods (results @ podResults) s')"

definition RunAllTests :: "'w client \<Rightarrow> TestPod list \<Rightarrow> string list \<Rightarrow> (string \<times> string) list
    \<Rightarrow> 'w \<Rightarrow> TestResult list \<times> 'w" where
  "RunAllTests cl pods coreDNSIPs nodeIPs s =
     runTasks cl (map (\<lambda>i. pods ! i) (schedule (sched cl) (length pods)))
       coreDNSIPs nodeIPs pods [] s"

text \<open>The tally loop at the end of \<open>Run\<close>.\<close>

fun summarize :: "TestResult list \<Rightarrow> TestSummary \<Rightarrow> TestSummary" where
  "summarize [] sm = sm"
| "summarize (r # rs) sm =
     (let sm1 = sm\<lparr>Total := Total sm + 1\<rparr>
      in summarize rs (if Success r then sm1\<lparr>Passed := Passed sm1 + 1\<rparr>
                       else sm1\<lparr>Failed := Failed sm1 + 1\<rparr>))"

section \<open>The orchestrator\<close>

text \<open>
  The statements of \<open>Run\<close> that follow its \<open>defer\<close>: every return from them is
  followed by the deferred cleanup.
\<close>

definition runDeferred :: "'w client \<Rightarrow> NetworkTestReport \<Rightarrow> Node list \<Rightarrow> TestPod list \<Rightarrow> 'w
    \<Rightarrow> (run_error + NetworkTestReport) \<times> 'w" where
  "runDeferred cl report readyNodes testPods s =
     (case WaitForPodsReady cl testPods s of
        (Inl podName, s1) \<Rightarrow> (Inl (ErrPodsNotReady podName), s1)
      | (Inr readyPods, s1) \<Rightarrow>
          (case DiscoverCoreDNSPods cl s1 of
             (found, s2) \<Rightarrow>
               (let coreDNSIPs = (case found of Inl err \<Rightarrow> [] | Inr ips \<Rightarrow> ips);
                    nodeIPs = GetNodeInternalIPs readyNodes
                in case RunAllTests cl readyPods coreDNSIPs nodeIPs
                          (StartListeners cl readyPods s2) of
                     (results, s4) \<Rightarrow>
                       (Inr (report\<lparr> PodCount := int (length readyPods),
                                     TestResults := results,
                                     Summary := summarize results (Summary report) \<rparr>), s4))))"

definition Run :: "'w client \<Rightarrow> 'w \<Rightarrow> (run_error + NetworkTestReport) \<times> 'w" where
  "Run cl s =
     (let report = \<lparr> Timestamp = clock cl s, NodeCount = 0, PodCount = 0, TestResults = [],
                     Summary = \<lparr> Total = 0, Passed = 0, Failed = 0 \<rparr> \<rparr>
      in case EnsureNamespace cl s of
           (Some err, s1) \<Rightarrow> (Inl (ErrCreateNamespace err), s1)
         | (None, s1) \<Rightarrow>
             (case CleanupTestPods cl s1 of
                (_, s2) \<Rightarrow>
                  (case nodes_List cl s2 of
                     (Inl err, s3) \<Rightarrow> (Inl (ErrListNodes err), s3)
                   | (Inr nodes, s3) \<Rightarrow>
                       (let readyNodes = filterReadyNodes nodes
                        in if length readyNodes = 0 then (Inl ErrNoReadyNodes, s3)
                           else
                             (case CreateTestPods cl readyNodes s3 of
                                (Inl (nodeName, err), s4) \<Rightarrow>
                                  (case CleanupTestPods cl s4 of
                                     (_, s5) \<Rightarrow> (Inl (ErrCreateTestPods nodeName err), s5))
                              | (Inr testPods, s4) \<Rightarrow>
                                  (case runDeferred cl
                                          (report\<lparr>NodeCount := int (length readyNodes)\<rparr>)
                                          readyNodes testPods s4 of
                                     (res, s5) \<Rightarrow>
                                       (case CleanupTestPods cl s5 of
                                          (_, s6) \<Rightarrow> (res, s6))))))))"

section \<open>Observing the API calls\<close>

text \<open>
  To speak about the order of the calls a run makes, a client is wrapped so that every
  operation appends its name to a log kept beside the cluster state. The wrapper changes
  no answer and no state of the client it wraps.
\<close>

datatype api_call =
    NamespacesCreate
  | NamespacesDelete
  | NamespacesGet
  | NodesList
  | PodsCreate string
  | PodsGet string
  | EndpointsGet string
  | PodsList
  | Exec string "string list"

definition logCall :: "api_call \<Rightarrow> ('w \<Rightarrow> 'a \<times> 'w) \<Rightarrow> api_call list \<times> 'w
    \<Rightarrow> 'a \<times> api_call list \<times> 'w" where
  "logCall c f = (\<lambda>(tr, w). case f w of (r, w') \<Rightarrow> (r, (tr @ [c], w')))"

definition logged :: "'w client \<Rightarrow> (api_call list \<times> 'w) client" where
  "logged cl =
     \<lparr> ns_Create = logCall NamespacesCreate (ns_Create cl),
       ns_Delete = logCall NamespacesDelete (ns_Delete cl),
       ns_Get = logCall NamespacesGet (ns_Get cl),
       nodes_List = logCall NodesList (nodes_List cl),
       pods_Create = (\<lambda>p. logCall (PodsCreate (pod_Name p)) (pods_Create cl p)),
       pods_Get = (\<lambda>name. logCall (PodsGet name) (pods_Get cl name)),
       endpoints_Get = (\<lambda>name. logCall (EndpointsGet name) (endpoints_Get cl name)),
       pods_List = logCall PodsList (pods_List cl),
       ExecInPod = (\<lambda>pod cmd. logCall (Exec pod cmd) (ExecInPod cl pod cmd)),
       cleanupTicks = cleanupTicks cl,
       readyTicks = readyTicks cl,
       clock = (\<lambda>(tr, w). clock cl w),
       sched = sched cl \<rparr>"

section \<open>A small cluster\<close>

text \<open>
  A cluster to run the package on: the diagnostic namespace exists or not, and holds
  the names of its pods. Creating the namespace is refused when \<open>mayCreate\<close> is false;
  deleting it removes it with its pods at once, or is refused when \<open>mayDelete\<close> is
  false; creating a pod in a namespace that does not exist is answered "not found";
  every pod is Running with no container status and the address \<open>podIP\<close>; a command
  ends as \<open>outcome\<close> says.
\<close>

record cluster =
  hasNamespace :: bool
  podNames :: "string list"

definition clusterClient :: "bool \<Rightarrow> bool \<Rightarrow> Node list \<Rightarrow> (string \<times> string list list) list
    \<Rightarrow> SystemPod list \<Rightarrow> string \<Rightarrow> (string list \<Rightarrow> string option) \<Rightarrow> cluster client" where
  "clusterClient mayCreate mayDelete nodes endpoints systemPods podIP outcome =
     \<lparr> ns_Create = (\<lambda>w. if \<not> mayCreate then (Some (OtherError ''forbidden''), w)
                         else if hasNamespace w then (Some AlreadyExists, w)
                         else (None, w\<lparr>hasNamespace := True\<rparr>)),
       ns_Delete = (\<lambda>w. if \<not> mayDelete then (Some (OtherError ''forbidden''), w)
                         else if hasNamespace w
                         then (None, w\<lparr>hasNamespace := False, podNames := []\<rparr>)
                         else (Some NotFound, w)),
       ns_Get = (\<lambda>w. (if hasNamespace w then None else Some NotFound, w)),
       nodes_List = (\<lambda>w. (Inr nodes, w)),
       pods_Create = (\<lambda>p w. if \<not> hasNamespace w then (Some NotFound, w)
                             else if pod_Name p \<in> set (podNames w) then (Some AlreadyExists, w)
                             else (None, w\<lparr>podNames := podNames w @ [pod_Name p]\<rparr>)),
       pods_Get = (\<lambda>name w.
                     (if hasNamespace w \<and> name \<in> set (podNames w)
                      then Inr \<lparr> status_Phase = PodRunning, status_ContainerStatuses = [],
                                 status_PodIP = podIP \<rparr>
                      else Inl NotFound, w)),
       endpoints_Get = (\<lambda>name w.
                          (case map_of endpoints name of
                             None \<Rightarrow> Inl NotFound
                           | Some subsets \<Rightarrow> Inr subsets, w)),
       pods_List = (\<lambda>w. (Inr systemPods, w)),
       ExecInPod = (\<lambda>pod cmd w. (outcome cmd, w)),
       cleanupTicks = 30,
       readyTicks = 45,
       clock = (\<lambda>w. 0),
       sched = [] \<rparr>"

definition allSucceed :: "string list \<Rightarrow> string option" where
  "allSucceed cmd = None"


definition lookupFails :: "string list \<Rightarrow> string option" where
  "lookupFails cmd = (if cmd = [''nslookup'', ''github.com''] then Some ''exit status 1'' else None)"

definition readyNode :: "string \<Rightarrow> string \<Rightarrow> Node" where
  "readyNode name ip =
     \<lparr> node_Name = name,
       node_Conditions = [\<lparr> cond_Type = ''MemoryPressure'', cond_Status = ''False'' \<rparr>,
                          \<lparr> cond_Type = ''Ready'', cond_Status = ''True'' \<rparr>],
       node_Addresses = [\<lparr> addr_Type = ''Hostname'', addr_Address = name \<rparr>,
                         \<lparr> addr_Type = ''InternalIP'', addr_Address = ip \<rparr>] \<rparr>"

definition emptyCluster :: cluster where
  "emptyCluster = \<lparr> hasNamespace = False, podNames = [] \<rparr>"

section \<open>Vocabulary of the statements\<close>

text \<open>The bytes allowed in a derived name, \<open>[a-z0-9-]\<close>, and the upper-case letters.\<close>

definition nameByte :: "char \<Rightarrow> bool" where
  "nameByte c =
     ((byte CHR ''a'' \<le> byte c \<and> byte c \<le> byte CHR ''z'')
      \<or> (byte CHR ''0'' \<le> byte c \<and> byte c \<le> byte CHR ''9'') \<or> c = CHR ''-'')"

definition upperByte :: "char \<Rightarrow> bool" where
  "upperByte c = (byte CHR ''A'' \<le> byte c \<and> byte c \<le> byte CHR ''Z'')"

text \<open>The entry \<open>CreateTestPods\<close> appends for a node.\<close>

definition testPodOf :: "Node \<Rightarrow> TestPod" where
  "testPodOf node = \<lparr> Name = testPodPrefix @ sanitizeNodeName (node_Name node),
                      NodeName = node_Name node, PodIP = [] \<rparr>"

text \<open>
  What the two strategies of \<open>DiscoverCoreDNSPods\<close> find, read off the cluster's
  answers: the addresses of a service's endpoints (none when the lookup fails), and the
  addresses of the system pods that are named after a DNS component, Running and have an
  address (none when the listing fails).
\<close>

definition serviceAddresses :: "api_error + string list list \<Rightarrow> string list" where
  "serviceAddresses answer = (case answer of Inl err \<Rightarrow> [] | Inr subsets \<Rightarrow> concat subsets)"

definition scannedAddresses :: "api_error + SystemPod list \<Rightarrow> string list" where
  "scannedAddresses answer =
     (case answer of
        Inl err \<Rightarrow> []
      | Inr pods \<Rightarrow>
          map (\<lambda>p. status_PodIP (sys_Status p))
            (filter (\<lambda>p. (sublist ''coredns'' (sys_Name p) \<or> sublist ''kube-dns'' (sys_Name p))
                          \<and> status_Phase (sys_Status p) = ''Running''
                          \<and> status_PodIP (sys_Status p) \<noteq> []) pods))"


text \<open>A cluster with one ready node and no cluster DNS to be found.\<close>

definition bareCluster :: "cluster client" where
  "bareCluster =
     clusterClient True False [readyNode ''n1'' ''10.0.0.1''] [(''kube-dns'', [[]])]
       [\<lparr> sys_Name = ''etcd-n1'',
          sys_Status = \<lparr> status_Phase = ''Running'', status_ContainerStatuses = [],
                         status_PodIP = ''10.0.0.1'' \<rparr> \<rparr>,
        \<lparr> sys_Name = ''coredns-5d78c9869d-abcde'',
          sys_Status = \<lparr> status_Phase = ''Pending'', status_ContainerStatuses = [],
                         status_PodIP = [] \<rparr> \<rparr>]
       ''10.1.0.1'' allSucceed"

text \<open>A cluster with one ready node on which every command succeeds.\<close>

definition oneNode :: "bool \<Rightarrow> bool \<Rightarrow> cluster client" where
  "oneNode mayCreate mayDelete =
     clusterClient mayCreate mayDelete [readyNode ''n1'' ''10.0.0.1''] [] [] ''10.1.0.1'' allSucceed"

text \<open>
  The polls of one pod, read off the cluster: the state after \<open>k\<close> Gets of the pod, and
  the answer to the next Get, which is what poll number \<open>k\<close> (counted from 0) sees.
\<close>

definition afterGets :: "'w client \<Rightarrow> string \<Rightarrow> nat \<Rightarrow> 'w \<Rightarrow> 'w" where
  "afterGets cl name k s = ((\<lambda>w. snd (pods_Get cl name w)) ^^ k) s"

definition answerAt :: "'w client \<Rightarrow> string \<Rightarrow> nat \<Rightarrow> 'w \<Rightarrow> api_error + PodStatus" where
  "answerAt cl name k s = fst (pods_Get cl name (afterGets cl name k s))"

text \<open>
  An answer shows the pod ready when it is a status in phase Running in which every
  container status is ready; the IP it carries is the status's pod IP.
\<close>

definition readyStatus :: "PodStatus \<Rightarrow> bool" where
  "readyStatus st =
     (status_Phase st = ''Running'' \<and> list_all cs_Ready (status_ContainerStatuses st))"

definition readyAnswer :: "api_error + PodStatus \<Rightarrow> bool" where
  "readyAnswer answer = (case answer of Inl err \<Rightarrow> False | Inr st \<Rightarrow> readyStatus st)"

definition answeredIP :: "api_error + PodStatus \<Rightarrow> string" where
  "answeredIP answer = (case answer of Inl err \<Rightarrow> [] | Inr st \<Rightarrow> status_PodIP st)"

text \<open>
  Readiness synchronisation as the specification words it: each pod in turn is polled,
  at once and then once per tick, until an answer shows it ready or the ticks of the one
  shared deadline are used up. The first poll that sees the pod ready ends its wait and
  its IP is the one carried by that answer; the next pod is polled from the state after
  that Get with the ticks that remain. A pod that no poll sees ready ends the whole wait
  with an error naming it.
\<close>

definition firstReady :: "'w client \<Rightarrow> string \<Rightarrow> nat \<Rightarrow> 'w \<Rightarrow> nat option" where
  "firstReady cl name ticks s =
     find (\<lambda>k. readyAnswer (answerAt cl name k s)) [0 ..< Suc ticks]"

fun waitSpec :: "'w client \<Rightarrow> TestPod list \<Rightarrow> nat \<Rightarrow> 'w \<Rightarrow> (string + TestPod list) \<times> 'w" where
  "waitSpec cl [] ticks s = (Inr [], s)"
| "waitSpec cl (pod # pods) ticks s =
     (case firstReady cl (Name pod) ticks s of
        None \<Rightarrow> (Inl (Name pod), afterGets cl (Name pod) (Suc ticks) s)
      | Some k \<Rightarrow>
          (case waitSpec cl pods (ticks - k) (afterGets cl (Name pod) (Suc k) s) of
             (Inl failed, s') \<Rightarrow> (Inl failed, s')
           | (Inr ready, s') \<Rightarrow>
               (Inr (pod\<lparr>PodIP := answeredIP (answerAt cl (Name pod) k s)\<rparr> # ready), s')))"

text \<open>
  A cluster for the readiness wait: its state gives, for each pod, the number of Gets that
  still find it Pending with an unready container; after that the pod is Running with no
  container status and the address \<open>ip\<close> of its name.
\<close>

definition slowCluster :: "(string \<Rightarrow> string) \<Rightarrow> nat \<Rightarrow> (string \<times> nat) list client" where
  "slowCluster ip ticks =
     \<lparr> ns_Create = (\<lambda>w. (None, w)),
       ns_Delete = (\<lambda>w. (Some (OtherError ''forbidden''), w)),
       ns_Get = (\<lambda>w. (None, w)),
       nodes_List = (\<lambda>w. (Inr [], w)),
       pods_Create = (\<lambda>p w. (Some AlreadyExists, w)),
       pods_Get = (\<lambda>name w.
                     case map_of w name of
                       None \<Rightarrow> (Inl NotFound, w)
                     | Some 0 \<Rightarrow>
                         (Inr \<lparr> status_Phase = ''Running'', status_ContainerStatuses = [],
                                status_PodIP = ip name \<rparr>, w)
                     | Some (Suc n) \<Rightarrow>
                         (Inr \<lparr> status_Phase = ''Pending'',
                                status_ContainerStatuses = [\<lparr> cs_Ready = False \<rparr>],
                                status_PodIP = [] \<rparr>, AList.update name n w)),
       endpoints_Get = (\<lambda>name w. (Inl NotFound, w)),
       pods_List = (\<lambda>w. (Inr [], w)),
       ExecInPod = (\<lambda>pod cmd w. (None, w)),
       cleanupTicks = 30,
       readyTicks = ticks,
       clock = (\<lambda>w. 0),
       sched = [] \<rparr>"

definition firstHasIP :: "string \<Rightarrow> string" where
  "firstHasIP name = (if name = ''nettest-n1'' then ''10.1.0.1'' else [])"

section \<open>Pod names\<close>

lemma sanitizeByte_valid: "nameByte (sanitizeByte c)"
  by (auto simp: sanitizeByte_def nameByte_def byte_def)

lemma sanitizeByte_id: "nameByte c \<Longrightarrow> sanitizeByte c = c"
  by (auto simp: sanitizeByte_def nameByte_def)

lemma sanitizeByte_upper: "upperByte c \<Longrightarrow> byte (sanitizeByte c) = byte c + 32"
  by (auto simp: sanitizeByte_def upperByte_def byte_def)

lemma sanitizeByte_other: "\<not> nameByte c \<Longrightarrow> \<not> upperByte c \<Longrightarrow> sanitizeByte c = CHR ''-''"
  by (auto simp: sanitizeByte_def nameByte_def upperByte_def)

lemma map_sanitizeByte_id: "\<forall>c \<in> set name. nameByte c \<Longrightarrow> map sanitizeByte name = name"
  by (induction name) (auto simp: sanitizeByte_id)

lemma sanitizeNodeName_take: "sanitizeNodeName name = take 50 (map sanitizeByte name)"
  by (simp add: sanitizeNodeName_def Let_def)

lemma sanitizeNodeName_id:
  "length name \<le> 50 \<Longrightarrow> \<forall>c \<in> set name. nameByte c \<Longrightarrow> sanitizeNodeName name = name"
  by (simp add: sanitizeNodeName_take map_sanitizeByte_id)

text \<open>
  Claim C3, as stated, asks that distinct node names always give distinct pod names.
  Sanitising is lossy: the two node names \<open>node.1\<close> and \<open>node-1\<close> differ and are given
  the same pod name.
\<close>

theorem sanitizeNodeName_collision:
  "''node.1'' \<noteq> ''node-1''
   \<and> testPodPrefix @ sanitizeNodeName ''node.1'' = testPodPrefix @ sanitizeNodeName ''node-1''"
  by (simp add: sanitizeNodeName_def sanitizeByte_def byte_def)

text \<open>
  Claim C3, amended: for every node name the sanitised name has the length of the node
  name cut at 50, holds only bytes of \<open>[a-z0-9-]\<close>, and is built byte by byte: a byte of
  \<open>[a-z0-9-]\<close> is kept, an upper-case letter becomes its lower-case letter (32 higher),
  every other byte becomes \<open>-\<close>. Two distinct node names of at most 50 bytes of
  \<open>[a-z0-9-]\<close> get distinct pod names; nothing is promised for other pairs.
\<close>

theorem sanitizeNodeName_valid:
  "length (sanitizeNodeName name) = min 50 (length name)
   \<and> (\<forall>c \<in> set (sanitizeNodeName name). nameByte c)
   \<and> (\<forall>i < length (sanitizeNodeName name).
         (nameByte (name ! i) \<longrightarrow> sanitizeNodeName name ! i = name ! i)
         \<and> (upperByte (name ! i) \<longrightarrow> byte (sanitizeNodeName name ! i) = byte (name ! i) + 32)
         \<and> (\<not> nameByte (name ! i) \<and> \<not> upperByte (name ! i)
              \<longrightarrow> sanitizeNodeName name ! i = CHR ''-''))
   \<and> (length a \<le> 50 \<and> (\<forall>c \<in> set a. nameByte c) \<and> length b \<le> 50 \<and> (\<forall>c \<in> set b. nameByte c)
        \<and> a \<noteq> b
        \<longrightarrow> testPodPrefix @ sanitizeNodeName a \<noteq> testPodPrefix @ sanitizeNodeName b)"
proof -
  have len: "length (sanitizeNodeName name) = min 50 (length name)"
    by (simp add: sanitizeNodeName_take)
  have valid: "\<forall>c \<in> set (sanitizeNodeName name). nameByte c"
    by (auto simp: sanitizeNodeName_take sanitizeByte_valid dest!: in_set_takeD)
  have nth: "sanitizeNodeName name ! i = sanitizeByte (name ! i)"
    if "i < length (sanitizeNodeName name)" for i
    using that by (simp add: sanitizeNodeName_take)
  have bytes: "\<forall>i < length (sanitizeNodeName name).
         (nameByte (name ! i) \<longrightarrow> sanitizeNodeName name ! i = name ! i)
         \<and> (upperByte (name ! i) \<longrightarrow> byte (sanitizeNodeName name ! i) = byte (name ! i) + 32)
         \<and> (\<not> nameByte (name ! i) \<and> \<not> upperByte (name ! i)
              \<longrightarrow> sanitizeNodeName name ! i = CHR ''-'')"
    by (simp add: nth sanitizeByte_id sanitizeByte_upper sanitizeByte_other)
  have inj: "length a \<le> 50 \<and> (\<forall>c \<in> set a. nameByte c) \<and> length b \<le> 50
        \<and> (\<forall>c \<in> set b. nameByte c) \<and> a \<noteq> b
        \<longrightarrow> testPodPrefix @ sanitizeNodeName a \<noteq> testPodPrefix @ sanitizeNodeName b"
    by (simp add: sanitizeNodeName_id)
  from len valid bytes inj show ?thesis by blast
qed

theorem sanitizeNodeName_valid_witness:
  "sanitizeNodeName ''Worker_A.local'' = ''worker-a-local''
   \<and> length (sanitizeNodeName ''Worker_A.local'') = min 50 (length ''Worker_A.local'')
   \<and> list_all nameByte ''worker-a-local''
   \<and> upperByte CHR ''W'' \<and> byte CHR ''w'' = byte CHR ''W'' + 32
   \<and> \<not> nameByte CHR ''_'' \<and> \<not> upperByte CHR ''_''
   \<and> length ''node-1'' \<le> 50 \<and> list_all nameByte ''node-1''
   \<and> length ''node-2'' \<le> 50 \<and> list_all nameByte ''node-2''
   \<and> testPodPrefix @ sanitizeNodeName ''node-1'' \<noteq> testPodPrefix @ sanitizeNodeName ''node-2''"
proof -
  have evald: "sanitizeNodeName ''Worker_A.local'' = ''worker-a-local''
      \<and> list_all nameByte ''worker-a-local''
      \<and> upperByte CHR ''W'' \<and> byte CHR ''w'' = byte CHR ''W'' + 32
      \<and> \<not> nameByte CHR ''_'' \<and> \<not> upperByte CHR ''_''"
    by code_simp
  have small: "length ''node-1'' \<le> 50 \<and> list_all nameByte ''node-1''
      \<and> length ''node-2'' \<le> 50 \<and> list_all nameByte ''node-2''
      \<and> ''node-1'' \<noteq> ''node-2''"
    by code_simp
  from sanitizeNodeName_valid [of "''Worker_A.local''" "''node-1''" "''node-2''"] small
  have "length (sanitizeNodeName ''Worker_A.local'') = min 50 (length ''Worker_A.local'')
      \<and> testPodPrefix @ sanitizeNodeName ''node-1'' \<noteq> testPodPrefix @ sanitizeNodeName ''node-2''"
    unfolding list_all_iff by blast
  with evald small show ?thesis by blast
qed

section \<open>Ready nodes\<close>

lemma readyLoop_eq:
  "readyLoop conds node ready =
     (if \<exists>c \<in> set conds. cond_Type c = NodeReady \<and> cond_Status c = ConditionTrue
      then ready @ [node] else ready)"
  by (induction conds) auto

lemma fold_readyLoop:
  "fold (\<lambda>node ready. readyLoop (node_Conditions node) node ready) nodes acc =
     acc @ filter (\<lambda>n. \<exists>c \<in> set (node_Conditions n).
                          cond_Type c = NodeReady \<and> cond_Status c = ConditionTrue) nodes"
  by (induction nodes arbitrary: acc) (simp_all add: readyLoop_eq)

text \<open>
  Claim C8: \<open>filterReadyNodes\<close> keeps, in their order, exactly the nodes that have a
  condition of type Ready with status True. A node whose Ready condition is False or
  Unknown, and a node with no Ready condition, has no such condition and is dropped.
\<close>

theorem filterReadyNodes_iff:
  "filterReadyNodes nodes =
     filter (\<lambda>n. \<exists>c \<in> set (node_Conditions n). cond_Type c = ''Ready'' \<and> cond_Status c = ''True'')
       nodes"
  using fold_readyLoop[of nodes "[]"]
  by (simp add: filterReadyNodes_def NodeReady_def ConditionTrue_def)

theorem filterReadyNodes_iff_witness:
  "filterReadyNodes
     [readyNode ''n1'' ''10.0.0.1'',
      \<lparr> node_Name = ''n2'',
        node_Conditions = [\<lparr> cond_Type = ''Ready'', cond_Status = ''False'' \<rparr>],
        node_Addresses = [] \<rparr>,
      \<lparr> node_Name = ''n3'',
        node_Conditions = [\<lparr> cond_Type = ''Ready'', cond_Status = ''Unknown'' \<rparr>],
        node_Addresses = [] \<rparr>,
      \<lparr> node_Name = ''n4'',
        node_Conditions = [\<lparr> cond_Type = ''DiskPressure'', cond_Status = ''True'' \<rparr>],
        node_Addresses = [] \<rparr>,
      \<lparr> node_Name = ''n5'', node_Conditions = [], node_Addresses = [] \<rparr>]
   = [readyNode ''n1'' ''10.0.0.1'']"
  using filterReadyNodes_iff
    [of "[readyNode ''n1'' ''10.0.0.1'',
      \<lparr> node_Name = ''n2'',
        node_Conditions = [\<lparr> cond_Type = ''Ready'', cond_Status = ''False'' \<rparr>],
        node_Addresses = [] \<rparr>,
      \<lparr> node_Name = ''n3'',
        node_Conditions = [\<lparr> cond_Type = ''Ready'', cond_Status = ''Unknown'' \<rparr>],
        node_Addresses = [] \<rparr>,
      \<lparr> node_Name = ''n4'',
        node_Conditions = [\<lparr> cond_Type = ''DiskPressure'', cond_Status = ''True'' \<rparr>],
        node_Addresses = [] \<rparr>,
      \<lparr> node_Name = ''n5'', node_Conditions = [], node_Addresses = [] \<rparr>]"]
  by (simp add: readyNode_def)

section \<open>Aggregation\<close>

lemma summarize_counts:
  "summarize rs sm =
     \<lparr> Total = Total sm + int (length rs),
       Passed = Passed sm + int (length (filter Success rs)),
       Failed = Failed sm + int (length (filter (\<lambda>r. \<not> Success r) rs)) \<rparr>"
  by (induction rs arbitrary: sm) (auto simp: Let_def)

lemma runDeferred_summary:
  "runDeferred cl rep0 readyNodes testPods s = (Inr report, s') \<Longrightarrow>
     Summary report = summarize (TestResults report) (Summary rep0)"
  by (auto simp: runDeferred_def Let_def split: prod.splits sum.splits)

lemma Run_summary:
  "fst (Run cl s) = Inr report \<Longrightarrow>
     Summary report = summarize (TestResults report) \<lparr> Total = 0, Passed = 0, Failed = 0 \<rparr>"
  by (auto simp: Run_def Let_def split: prod.splits option.splits sum.splits if_splits
      dest: runDeferred_summary)

lemma length_filter_split:
  "length (filter P xs) + length (filter (\<lambda>x. \<not> P x) xs) = length xs"
  by (induction xs) auto

text \<open>
  Claim C7: for every result list, the tally loop of \<open>Run\<close>, started from zero, sets
  Total to the number of results, Passed to the number with Success true and Failed to
  the number with Success false, so that Passed + Failed = Total; and the summary of a
  report that \<open>Run\<close> returns is that tally of the report's own results.
\<close>

theorem Run_aggregation:
  "(let sm = summarize results \<lparr> Total = 0, Passed = 0, Failed = 0 \<rparr>
    in Total sm = int (length results)
       \<and> Passed sm = int (length (filter Success results))
       \<and> Failed sm = int (length (filter (\<lambda>r. \<not> Success r) results))
       \<and> Passed sm + Failed sm = Total sm)
   \<and> (fst (Run cl s) = Inr report \<longrightarrow>
        Summary report = summarize (TestResults report) \<lparr> Total = 0, Passed = 0, Failed = 0 \<rparr>)"
  using length_filter_split[of Success results]
  by (simp add: Run_summary summarize_counts Let_def)

theorem Run_aggregation_witness:
  "fst (Run (clusterClient True False [readyNode ''n1'' ''10.0.0.1''] [] [] ''10.1.0.1'' lookupFails)
          emptyCluster) =
     Inr \<lparr> Timestamp = 0, NodeCount = 1, PodCount = 1,
           TestResults =
             [\<lparr> SourceNode = ''n1'', SourcePod = ''nettest-n1'', TestType = ''dns'',
                 Target = ''github.com'', Success = False, Error = ''exit status 1'' \<rparr>,
              \<lparr> SourceNode = ''n1'', SourcePod = ''nettest-n1'', TestType = ''external-tcp'',
                 Target = ''github.com:443'', Success = True, Error = [] \<rparr>],
           Summary = \<lparr> Total = 2, Passed = 1, Failed = 1 \<rparr> \<rparr>
   \<and> summarize
         [\<lparr> SourceNode = ''n1'', SourcePod = ''nettest-n1'', TestType = ''dns'',
             Target = ''github.com'', Success = False, Error = ''exit status 1'' \<rparr>,
          \<lparr> SourceNode = ''n1'', SourcePod = ''nettest-n1'', TestType = ''external-tcp'',
             Target = ''github.com:443'', Success = True, Error = [] \<rparr>]
         \<lparr> Total = 0, Passed = 0, Failed = 0 \<rparr>
       = \<lparr> Total = 2, Passed = 1, Failed = 1 \<rparr>"
proof -
  let ?cl = "clusterClient True False [readyNode ''n1'' ''10.0.0.1''] [] [] ''10.1.0.1'' lookupFails"
  let ?results = "[\<lparr> SourceNode = ''n1'', SourcePod = ''nettest-n1'', TestType = ''dns'',
                 Target = ''github.com'', Success = False, Error = ''exit status 1'' \<rparr>,
              \<lparr> SourceNode = ''n1'', SourcePod = ''nettest-n1'', TestType = ''external-tcp'',
                 Target = ''github.com:443'', Success = True, Error = [] \<rparr>]"
  let ?report = "\<lparr> Timestamp = 0, NodeCount = 1, PodCount = 1, TestResults = ?results,
           Summary = \<lparr> Total = 2, Passed = 1, Failed = 1 \<rparr> \<rparr>"
  have run: "fst (Run ?cl emptyCluster) = Inr ?report"
    by code_simp
  from Run_aggregation[of ?results ?cl emptyCluster ?report] run
  have "Summary ?report = summarize (TestResults ?report) \<lparr> Total = 0, Passed = 0, Failed = 0 \<rparr>"
    by blast
  then have "summarize ?results \<lparr> Total = 0, Passed = 0, Failed = 0 \<rparr>
      = \<lparr> Total = 2, Passed = 1, Failed = 1 \<rparr>"
    by simp
  with run show ?thesis by blast
qed

section \<open>One pod per ready node\<close>

lemma createLoop_Inr:
  "createLoop cl nodes acc s = (Inr pods, s') \<Longrightarrow> pods = acc @ map testPodOf nodes"
proof (induction nodes arbitrary: acc s)
  case Nil
  then show ?case by simp
next
  case (Cons node nodes)
  from Cons.prems obtain s1 where
    "createLoop cl nodes (acc @ [testPodOf node]) s1 = (Inr pods, s')"
    by (auto simp: Let_def testPodOf_def split: prod.splits option.splits if_splits)
  from Cons.IH[OF this] show ?case by simp
qed

lemma createLoop_append:
  "createLoop cl pre acc s = (Inr created, s1) \<Longrightarrow>
     createLoop cl (pre @ rest) acc s = createLoop cl rest created s1"
  by (induction pre arbitrary: acc s)
     (auto simp: Let_def split: prod.splits option.splits if_splits)

text \<open>
  Claim C6: when \<open>CreateTestPods\<close> returns a pod list, the list holds exactly one
  entry per input node, in order, named after the node. A creation answered with
  success or with "already exists" adds the node's pod and the loop goes on; a creation
  answered with any other error, at any position of the node list, makes
  \<open>CreateTestPods\<close> return that error and no pod list.
\<close>

theorem CreateTestPods_one_pod_per_node:
  "(CreateTestPods cl nodes s = (Inr pods, s') \<longrightarrow>
      pods = map (\<lambda>node. \<lparr> Name = testPodPrefix @ sanitizeNodeName (node_Name node),
                            NodeName = node_Name node, PodIP = [] \<rparr>) nodes
      \<and> length pods = length nodes)
   \<and> (CreateTestPods cl pre s = (Inr created, s1)
        \<and> pods_Create cl (testPodFor node) s1 = (answer, s2)
        \<and> (answer = None \<or> answer = Some AlreadyExists) \<longrightarrow>
      CreateTestPods cl (pre @ [node]) s =
        (Inr (created @ [\<lparr> Name = testPodPrefix @ sanitizeNodeName (node_Name node),
                             NodeName = node_Name node, PodIP = [] \<rparr>]), s2))
   \<and> (CreateTestPods cl pre s = (Inr created, s1)
        \<and> pods_Create cl (testPodFor node) s1 = (Some err, s2)
        \<and> err \<noteq> AlreadyExists \<longrightarrow>
      CreateTestPods cl (pre @ node # rest) s = (Inl (node_Name node, err), s2))"
proof -
  have one: "CreateTestPods cl nodes s = (Inr pods, s') \<longrightarrow>
      pods = map (\<lambda>node. \<lparr> Name = testPodPrefix @ sanitizeNodeName (node_Name node),
                            NodeName = node_Name node, PodIP = [] \<rparr>) nodes
      \<and> length pods = length nodes"
    using createLoop_Inr[of cl nodes "[]" s pods s']
    by (auto simp: CreateTestPods_def testPodOf_def)
  have reuse: "CreateTestPods cl pre s = (Inr created, s1)
        \<and> pods_Create cl (testPodFor node) s1 = (answer, s2)
        \<and> (answer = None \<or> answer = Some AlreadyExists) \<longrightarrow>
      CreateTestPods cl (pre @ [node]) s =
        (Inr (created @ [\<lparr> Name = testPodPrefix @ sanitizeNodeName (node_Name node),
                             NodeName = node_Name node, PodIP = [] \<rparr>]), s2)"
    by (auto simp: CreateTestPods_def createLoop_append Let_def IsAlreadyExists_def)
  have abort: "CreateTestPods cl pre s = (Inr created, s1)
        \<and> pods_Create cl (testPodFor node) s1 = (Some err, s2)
        \<and> err \<noteq> AlreadyExists \<longrightarrow>
      CreateTestPods cl (pre @ node # rest) s = (Inl (node_Name node, err), s2)"
    by (auto simp: CreateTestPods_def createLoop_append Let_def IsAlreadyExists_def)
  from one reuse abort show ?thesis by blast
qed

theorem CreateTestPods_one_pod_per_node_witness:
  "CreateTestPods (clusterClient True True [] [] [] [] allSucceed)
      [readyNode ''n1'' ''10.0.0.1'', readyNode ''n2'' ''10.0.0.2'']
      \<lparr> hasNamespace = True, podNames = [''nettest-n1''] \<rparr> =
     (Inr [\<lparr> Name = ''nettest-n1'', NodeName = ''n1'', PodIP = [] \<rparr>,
           \<lparr> Name = ''nettest-n2'', NodeName = ''n2'', PodIP = [] \<rparr>],
      \<lparr> hasNamespace = True, podNames = [''nettest-n1'', ''nettest-n2''] \<rparr>)
   \<and> pods_Create (clusterClient True True [] [] [] [] allSucceed) (testPodFor (readyNode ''n1'' ''10.0.0.1''))
        \<lparr> hasNamespace = True, podNames = [''nettest-n1''] \<rparr> =
       (Some AlreadyExists, \<lparr> hasNamespace = True, podNames = [''nettest-n1''] \<rparr>)
   \<and> CreateTestPods (clusterClient True True [] [] [] [] allSucceed) ([] @ [readyNode ''n1'' ''10.0.0.1''])
        \<lparr> hasNamespace = True, podNames = [''nettest-n1''] \<rparr> =
       (Inr ([] @ [\<lparr> Name = testPodPrefix @ sanitizeNodeName (node_Name (readyNode ''n1'' ''10.0.0.1'')),
                      NodeName = node_Name (readyNode ''n1'' ''10.0.0.1''), PodIP = [] \<rparr>]),
        \<lparr> hasNamespace = True, podNames = [''nettest-n1''] \<rparr>)
   \<and> pods_Create (clusterClient True True [] [] [] [] allSucceed) (testPodFor (readyNode ''n2'' ''10.0.0.2''))
        \<lparr> hasNamespace = False, podNames = [] \<rparr> =
       (Some NotFound, \<lparr> hasNamespace = False, podNames = [] \<rparr>)
   \<and> CreateTestPods (clusterClient True True [] [] [] [] allSucceed)
        ([] @ readyNode ''n2'' ''10.0.0.2'' # [readyNode ''n3'' ''10.0.0.3''])
        \<lparr> hasNamespace = False, podNames = [] \<rparr> =
       (Inl (node_Name (readyNode ''n2'' ''10.0.0.2''), NotFound),
        \<lparr> hasNamespace = False, podNames = [] \<rparr>)"
proof -
  let ?cl = "clusterClient True True [] [] [] [] allSucceed"
  let ?w = "\<lparr> hasNamespace = True, podNames = [''nettest-n1''] \<rparr>"
  let ?e = "\<lparr> hasNamespace = False, podNames = [] \<rparr>"
  have run: "CreateTestPods ?cl [readyNode ''n1'' ''10.0.0.1'', readyNode ''n2'' ''10.0.0.2''] ?w =
     (Inr [\<lparr> Name = ''nettest-n1'', NodeName = ''n1'', PodIP = [] \<rparr>,
           \<lparr> Name = ''nettest-n2'', NodeName = ''n2'', PodIP = [] \<rparr>],
      \<lparr> hasNamespace = True, podNames = [''nettest-n1'', ''nettest-n2''] \<rparr>)"
    by code_simp
  have nil_w: "CreateTestPods ?cl [] ?w = (Inr [], ?w)"
    by (simp add: CreateTestPods_def)
  have nil_e: "CreateTestPods ?cl [] ?e = (Inr [], ?e)"
    by (simp add: CreateTestPods_def)
  have exists: "pods_Create ?cl (testPodFor (readyNode ''n1'' ''10.0.0.1'')) ?w
      = (Some AlreadyExists, ?w)"
    by code_simp
  have missing: "pods_Create ?cl (testPodFor (readyNode ''n2'' ''10.0.0.2'')) ?e
      = (Some NotFound, ?e)"
    by code_simp
  have other: "NotFound \<noteq> AlreadyExists"
    by simp
  from CreateTestPods_one_pod_per_node
         [of ?cl "[]" ?w "[]" ?w "[]" "[]" ?w "readyNode ''n1'' ''10.0.0.1''"
             "Some AlreadyExists" ?w]
       nil_w exists
  have reuse: "CreateTestPods ?cl ([] @ [readyNode ''n1'' ''10.0.0.1'']) ?w =
       (Inr ([] @ [\<lparr> Name = testPodPrefix @ sanitizeNodeName (node_Name (readyNode ''n1'' ''10.0.0.1'')),
                      NodeName = node_Name (readyNode ''n1'' ''10.0.0.1''), PodIP = [] \<rparr>]), ?w)"
    by blast
  from CreateTestPods_one_pod_per_node
         [of ?cl "[]" ?e "[]" ?e "[]" "[]" ?e "readyNode ''n2'' ''10.0.0.2''"
             "Some NotFound" ?e NotFound "[readyNode ''n3'' ''10.0.0.3'']"]
       nil_e missing other
  have abort: "CreateTestPods ?cl ([] @ readyNode ''n2'' ''10.0.0.2'' # [readyNode ''n3'' ''10.0.0.3'']) ?e =
       (Inl (node_Name (readyNode ''n2'' ''10.0.0.2''), NotFound), ?e)"
    by blast
  from run exists reuse missing abort show ?thesis by blast
qed

section \<open>When a pod counts as ready\<close>

lemma containersReady_iff: "containersReady css \<longleftrightarrow> (\<forall>cs \<in> set css. cs_Ready cs)"
  by (induction css) auto

lemma pollImmediate_pollTicks: "pollImmediate cond ticks s = pollTicks cond (Suc ticks) s"
  by (simp add: pollImmediate_def)

lemma afterGets_shift:
  "afterGets cl name (Suc k) s = afterGets cl name k (snd (pods_Get cl name s))"
  using funpow_swap1[of "\<lambda>w. snd (pods_Get cl name w)" k s]
  by (simp add: afterGets_def)

lemma answerAt_shift:
  "answerAt cl name (Suc k) s = answerAt cl name k (snd (pods_Get cl name s))"
  by (simp add: answerAt_def afterGets_shift)

lemma podReadyCheck_answer:
  "podReadyCheck cl name s =
     (if readyAnswer (answerAt cl name 0 s) then Some (answeredIP (answerAt cl name 0 s)) else None,
      snd (pods_Get cl name s))"
  by (auto simp: podReadyCheck_def answerAt_def afterGets_def readyAnswer_def readyStatus_def
        answeredIP_def containersReady_iff list_all_iff PodRunning_def split: prod.splits sum.splits)

lemma find_map_Suc: "find P (map Suc xs) = map_option Suc (find (\<lambda>k. P (Suc k)) xs)"
  by (induction xs) auto

lemma find_upt_Suc:
  "find P [0 ..< Suc n] =
     (if P 0 then Some 0 else map_option Suc (find (\<lambda>k. P (Suc k)) [0 ..< n]))"
proof -
  have "[0 ..< Suc n] = 0 # map Suc [0 ..< n]"
    by (simp add: upt_conv_Cons map_Suc_upt del: upt_Suc)
  then show ?thesis by (simp add: find_map_Suc del: upt_Suc)
qed

lemma pollTicks_ready:
  "pollTicks (podReadyCheck cl name) n s =
     (case find (\<lambda>k. readyAnswer (answerAt cl name k s)) [0 ..< n] of
        None \<Rightarrow> (None, 0, afterGets cl name n s)
      | Some k \<Rightarrow> (Some (answeredIP (answerAt cl name k s)), n - Suc k,
                   afterGets cl name (Suc k) s))"
proof (induction n arbitrary: s)
  case 0
  show ?case by (simp add: afterGets_def)
next
  case (Suc n)
  let ?s' = "snd (pods_Get cl name s)"
  show ?case
  proof (cases "readyAnswer (answerAt cl name 0 s)")
    case True
    then show ?thesis
      by (simp add: podReadyCheck_answer find_upt_Suc afterGets_def del: upt_Suc)
  next
    case False
    then have "pollTicks (podReadyCheck cl name) (Suc n) s = pollTicks (podReadyCheck cl name) n ?s'"
      by (simp add: podReadyCheck_answer)
    with False Suc.IH[of ?s'] show ?thesis
      by (simp add: find_upt_Suc answerAt_shift afterGets_shift del: upt_Suc funpow.simps
            split: option.splits)
  qed
qed

lemma waitLoop_spec:
  "waitLoop cl ready pods ticks s =
     (case waitSpec cl pods ticks s of
        (Inl failed, s') \<Rightarrow> (Inl failed, s')
      | (Inr ps, s') \<Rightarrow> (Inr (ready @ ps), s'))"
proof (induction pods arbitrary: ready ticks s)
  case Nil
  show ?case by simp
next
  case (Cons pod pods)
  show ?case
  proof (cases "firstReady cl (Name pod) ticks s")
    case None
    then show ?thesis
      by (simp add: pollImmediate_pollTicks pollTicks_ready firstReady_def
            del: upt_Suc pollTicks.simps)
  next
    case (Some k)
    then show ?thesis
      by (simp add: pollImmediate_pollTicks pollTicks_ready firstReady_def Cons.IH
            del: upt_Suc pollTicks.simps split: prod.splits sum.splits)
  qed
qed

lemma WaitForPodsReady_spec:
  "WaitForPodsReady cl pods s = waitSpec cl pods (readyTicks cl) s"
  by (simp add: WaitForPodsReady_def waitLoop_spec split: prod.splits sum.splits)

lemma waitSpec_sound:
  "waitSpec cl pods ticks s = (Inr ps, s') \<Longrightarrow>
     list_all2 (\<lambda>pod p. \<exists>w. readyAnswer (fst (pods_Get cl (Name pod) w))
                     \<and> p = pod\<lparr>PodIP := answeredIP (fst (pods_Get cl (Name pod) w))\<rparr>) pods ps"
proof (induction pods arbitrary: ticks s ps)
  case Nil
  then show ?case by simp
next
  case (Cons pod pods)
  from Cons.prems obtain k where k: "firstReady cl (Name pod) ticks s = Some k"
    by (cases "firstReady cl (Name pod) ticks s") auto
  with Cons.prems obtain rest where
    rest: "waitSpec cl pods (ticks - k) (afterGets cl (Name pod) (Suc k) s) = (Inr rest, s')"
    and ps: "ps = pod\<lparr>PodIP := answeredIP (answerAt cl (Name pod) k s)\<rparr> # rest"
    by (auto split: prod.splits sum.splits)
  from k have "readyAnswer (answerAt cl (Name pod) k s)"
    unfolding firstReady_def find_Some_iff by auto
  then have "\<exists>w. readyAnswer (fst (pods_Get cl (Name pod) w))
      \<and> pod\<lparr>PodIP := answeredIP (answerAt cl (Name pod) k s)\<rparr>
          = pod\<lparr>PodIP := answeredIP (fst (pods_Get cl (Name pod) w))\<rparr>"
    unfolding answerAt_def by blast
  with Cons.IH[OF rest] ps show ?case by simp
qed

lemma readyAnswer_status:
  "readyAnswer answer \<Longrightarrow>
     \<exists>st. answer = Inr st \<and> status_Phase st = ''Running''
        \<and> (\<forall>cs \<in> set (status_ContainerStatuses st). cs_Ready cs)
        \<and> answeredIP answer = status_PodIP st"
  by (cases answer) (auto simp: readyAnswer_def readyStatus_def answeredIP_def list_all_iff)

lemma firstReady_at:
  assumes "k \<le> ticks" and "readyAnswer (answerAt cl name k s)"
    and "\<forall>j<k. \<not> readyAnswer (answerAt cl name j s)"
  shows "firstReady cl name ticks s = Some k"
  unfolding firstReady_def find_Some_iff
  using assms by (auto intro!: exI[of _ k] simp del: upt_Suc)

lemma firstReady_never:
  assumes "\<forall>j\<le>ticks. \<not> readyAnswer (answerAt cl name j s)"
  shows "firstReady cl name ticks s = None"
  unfolding firstReady_def find_None_iff
  using assms by (auto simp del: upt_Suc)

text \<open>
  Claim C10: for every client and every pod list, \<open>WaitForPodsReady\<close> does what the
  specification of the wait says. Every pod of a returned list is the input pod with its
  \<open>PodIP\<close> set to the pod IP of a status that a Get of that pod answered, in phase Running
  with every container status ready. A pod is declared ready by the first poll whose
  answer is Running with every container status ready, whichever poll that is within the
  deadline; an empty list of container statuses meets the condition, and the IP stored
  is the one that answer carries, empty or not. When no poll within the deadline sees the
  first pod ready, the wait ends with an error naming that pod.
\<close>

theorem WaitForPodsReady_ready_rule:
  "WaitForPodsReady cl pods s = waitSpec cl pods (readyTicks cl) s
   \<and> (WaitForPodsReady cl pods s = (Inr ready, s') \<longrightarrow>
        length ready = length pods
        \<and> (\<forall>i < length pods.
              \<exists>st w w'. pods_Get cl (Name (pods ! i)) w = (Inr st, w')
                \<and> status_Phase st = ''Running''
                \<and> (\<forall>cs \<in> set (status_ContainerStatuses st). cs_Ready cs)
                \<and> ready ! i = (pods ! i)\<lparr>PodIP := status_PodIP st\<rparr>))
   \<and> (k \<le> readyTicks cl \<and> answerAt cl (Name pod) k s = Inr st
        \<and> status_Phase st = ''Running''
        \<and> (\<forall>cs \<in> set (status_ContainerStatuses st). cs_Ready cs)
        \<and> (\<forall>j < k. \<not> readyAnswer (answerAt cl (Name pod) j s)) \<longrightarrow>
       WaitForPodsReady cl [pod] s =
         (Inr [pod\<lparr>PodIP := status_PodIP st\<rparr>], afterGets cl (Name pod) (Suc k) s))
   \<and> ((\<forall>j \<le> readyTicks cl. \<not> readyAnswer (answerAt cl (Name pod) j s)) \<longrightarrow>
       WaitForPodsReady cl (pod # rest) s =
         (Inl (Name pod), afterGets cl (Name pod) (Suc (readyTicks cl)) s))"
  (is "?refines \<and> ?sound \<and> ?soon \<and> ?timeout")
proof -
  have refines: ?refines
    by (rule WaitForPodsReady_spec)
  have sound: ?sound
  proof
    assume "WaitForPodsReady cl pods s = (Inr ready, s')"
    then have "waitSpec cl pods (readyTicks cl) s = (Inr ready, s')"
      by (simp add: WaitForPodsReady_spec)
    from waitSpec_sound[OF this]
    have all: "list_all2 (\<lambda>pod p. \<exists>w. readyAnswer (fst (pods_Get cl (Name pod) w))
                     \<and> p = pod\<lparr>PodIP := answeredIP (fst (pods_Get cl (Name pod) w))\<rparr>) pods ready" .
    then have len: "length ready = length pods"
      by (simp add: list_all2_lengthD)
    have each: "\<exists>st w w'. pods_Get cl (Name (pods ! i)) w = (Inr st, w')
                \<and> status_Phase st = ''Running''
                \<and> (\<forall>cs \<in> set (status_ContainerStatuses st). cs_Ready cs)
                \<and> ready ! i = (pods ! i)\<lparr>PodIP := status_PodIP st\<rparr>"
      if "i < length pods" for i
    proof -
      from list_all2_nthD[OF all that] obtain w where
        r: "readyAnswer (fst (pods_Get cl (Name (pods ! i)) w))"
        and p: "ready ! i = (pods ! i)\<lparr>PodIP := answeredIP (fst (pods_Get cl (Name (pods ! i)) w))\<rparr>"
        by blast
      from readyAnswer_status[OF r] obtain st where
        "fst (pods_Get cl (Name (pods ! i)) w) = Inr st" "status_Phase st = ''Running''"
        "\<forall>cs \<in> set (status_ContainerStatuses st). cs_Ready cs"
        "answeredIP (fst (pods_Get cl (Name (pods ! i)) w)) = status_PodIP st"
        by blast
      with p have "pods_Get cl (Name (pods ! i)) w = (Inr st, snd (pods_Get cl (Name (pods ! i)) w))
          \<and> status_Phase st = ''Running''
          \<and> (\<forall>cs \<in> set (status_ContainerStatuses st). cs_Ready cs)
          \<and> ready ! i = (pods ! i)\<lparr>PodIP := status_PodIP st\<rparr>"
        by (simp add: prod_eq_iff)
      then show ?thesis by blast
    qed
    from len each show "length ready = length pods
        \<and> (\<forall>i < length pods.
              \<exists>st w w'. pods_Get cl (Name (pods ! i)) w = (Inr st, w')
                \<and> status_Phase st = ''Running''
                \<and> (\<forall>cs \<in> set (status_ContainerStatuses st). cs_Ready cs)
                \<and> ready ! i = (pods ! i)\<lparr>PodIP := status_PodIP st\<rparr>)"
      by blast
  qed
  have soon: ?soon
  proof
    assume h: "k \<le> readyTicks cl \<and> answerAt cl (Name pod) k s = Inr st
        \<and> status_Phase st = ''Running''
        \<and> (\<forall>cs \<in> set (status_ContainerStatuses st). cs_Ready cs)
        \<and> (\<forall>j < k. \<not> readyAnswer (answerAt cl (Name pod) j s))"
    then have "readyAnswer (answerAt cl (Name pod) k s)"
      by (simp add: readyAnswer_def readyStatus_def list_all_iff)
    with h have "firstReady cl (Name pod) (readyTicks cl) s = Some k"
      by (intro firstReady_at) simp_all
    with h show "WaitForPodsReady cl [pod] s =
         (Inr [pod\<lparr>PodIP := status_PodIP st\<rparr>], afterGets cl (Name pod) (Suc k) s)"
      by (simp add: WaitForPodsReady_spec answeredIP_def)
  qed
  have timeout: ?timeout
  proof
    assume "\<forall>j \<le> readyTicks cl. \<not> readyAnswer (answerAt cl (Name pod) j s)"
    then have "firstReady cl (Name pod) (readyTicks cl) s = None"
      by (rule firstReady_never)
    then show "WaitForPodsReady cl (pod # rest) s =
         (Inl (Name pod), afterGets cl (Name pod) (Suc (readyTicks cl)) s)"
      by (simp add: WaitForPodsReady_spec)
  qed
  show ?thesis
    by (rule conjI[OF refines conjI[OF sound conjI[OF soon timeout]]])
qed

theorem WaitForPodsReady_ready_rule_witness:
  "WaitForPodsReady (slowCluster firstHasIP 45)
      [\<lparr> Name = ''nettest-n1'', NodeName = ''n1'', PodIP = [] \<rparr>,
       \<lparr> Name = ''nettest-n2'', NodeName = ''n2'', PodIP = ''stale'' \<rparr>]
      [(''nettest-n1'', 2), (''nettest-n2'', 0)] =
     (Inr [\<lparr> Name = ''nettest-n1'', NodeName = ''n1'', PodIP = ''10.1.0.1'' \<rparr>,
           \<lparr> Name = ''nettest-n2'', NodeName = ''n2'', PodIP = [] \<rparr>],
      [(''nettest-n1'', 0), (''nettest-n2'', 0)])
   \<and> WaitForPodsReady (slowCluster firstHasIP 45)
        [\<lparr> Name = ''nettest-n1'', NodeName = ''n1'', PodIP = [] \<rparr>]
        [(''nettest-n1'', 2), (''nettest-n2'', 0)] =
       (Inr [\<lparr> Name = ''nettest-n1'', NodeName = ''n1'', PodIP = ''10.1.0.1'' \<rparr>],
        [(''nettest-n1'', 0), (''nettest-n2'', 0)])
   \<and> WaitForPodsReady (slowCluster firstHasIP 1)
        [\<lparr> Name = ''nettest-n1'', NodeName = ''n1'', PodIP = [] \<rparr>,
         \<lparr> Name = ''nettest-n2'', NodeName = ''n2'', PodIP = ''stale'' \<rparr>]
        [(''nettest-n1'', 2), (''nettest-n2'', 0)] =
       (Inl ''nettest-n1'', [(''nettest-n1'', 0), (''nettest-n2'', 0)])"
proof -
  let ?cl = "slowCluster firstHasIP 45"
  let ?short = "slowCluster firstHasIP 1"
  let ?p1 = "\<lparr> Name = ''nettest-n1'', NodeName = ''n1'', PodIP = [] \<rparr>"
  let ?p2 = "\<lparr> Name = ''nettest-n2'', NodeName = ''n2'', PodIP = ''stale'' \<rparr>"
  let ?w = "[(''nettest-n1'', 2::nat), (''nettest-n2'', 0)]"
  let ?w' = "[(''nettest-n1'', 0::nat), (''nettest-n2'', 0)]"
  let ?st = "\<lparr> status_Phase = ''Running'', status_ContainerStatuses = [],
               status_PodIP = ''10.1.0.1'' \<rparr>"
  have spec: "waitSpec ?cl [?p1, ?p2] (readyTicks ?cl) ?w =
     (Inr [\<lparr> Name = ''nettest-n1'', NodeName = ''n1'', PodIP = ''10.1.0.1'' \<rparr>,
           \<lparr> Name = ''nettest-n2'', NodeName = ''n2'', PodIP = [] \<rparr>], ?w')"
    by code_simp
  have ticks: "(2::nat) \<le> readyTicks ?cl"
    by (simp add: slowCluster_def)
  have third: "answerAt ?cl (Name ?p1) 2 ?w = Inr ?st"
    by code_simp
  have pending: "list_all (\<lambda>j. \<not> readyAnswer (answerAt ?cl (Name ?p1) j ?w)) [0 ..< 2]"
    by code_simp
  then have earlier: "\<forall>j < 2. \<not> readyAnswer (answerAt ?cl (Name ?p1) j ?w)"
    by (simp add: list_all_iff)
  have after: "afterGets ?cl (Name ?p1) (Suc 2) ?w = ?w'"
    by code_simp
  have short: "list_all (\<lambda>j. \<not> readyAnswer (answerAt ?short (Name ?p1) j ?w))
      [0 ..< Suc (readyTicks ?short)]"
    by code_simp
  then have never: "\<forall>j \<le> readyTicks ?short. \<not> readyAnswer (answerAt ?short (Name ?p1) j ?w)"
    by (simp add: list_all_iff less_Suc_eq_le del: upt_Suc)
  have after_short: "afterGets ?short (Name ?p1) (Suc (readyTicks ?short)) ?w = ?w'"
    by code_simp
  note long = WaitForPodsReady_ready_rule
      [where cl = ?cl and pods = "[?p1, ?p2]" and s = ?w and pod = ?p1 and k = 2 and st = ?st]
  note brief = WaitForPodsReady_ready_rule
      [where cl = ?short and pods = "[]" and s = ?w and pod = ?p1 and rest = "[?p2]"]
  from long spec have both: "WaitForPodsReady ?cl [?p1, ?p2] ?w =
     (Inr [\<lparr> Name = ''nettest-n1'', NodeName = ''n1'', PodIP = ''10.1.0.1'' \<rparr>,
           \<lparr> Name = ''nettest-n2'', NodeName = ''n2'', PodIP = [] \<rparr>], ?w')"
    by simp
  from long ticks third earlier
  have "WaitForPodsReady ?cl [?p1] ?w =
      (Inr [?p1\<lparr>PodIP := status_PodIP ?st\<rparr>], afterGets ?cl (Name ?p1) (Suc 2) ?w)"
    by simp
  with after have one: "WaitForPodsReady ?cl [?p1] ?w =
      (Inr [\<lparr> Name = ''nettest-n1'', NodeName = ''n1'', PodIP = ''10.1.0.1'' \<rparr>], ?w')"
    by simp
  from brief never
  have "WaitForPodsReady ?short (?p1 # [?p2]) ?w =
      (Inl (Name ?p1), afterGets ?short (Name ?p1) (Suc (readyTicks ?short)) ?w)"
    by blast
  with after_short have late: "WaitForPodsReady ?short [?p1, ?p2] ?w = (Inl ''nettest-n1'', ?w')"
    by simp
  from both one late show ?thesis by blast
qed

section \<open>Self-exclusion\<close>

lemma logged_Exec:
  "ExecInPod (logged cl) p c (tr, w) = (fst (ExecInPod cl p c w), tr @ [Exec p c], snd (ExecInPod cl p c w))"
  by (simp add: logged_def logCall_def split: prod.splits)

lemma kubeletLoop_logged:
  "kubeletLoop (logged cl) pod nodeIPs acc (tr, w) = (results, tr', w') \<Longrightarrow>
     tr' = tr @ map (\<lambda>(nodeName, nodeIP). Exec (Name pod) [''nc'', ''-z'', ''-w'', ''3'', nodeIP, ''10250''])
                  (filter (\<lambda>(nodeName, nodeIP). nodeName \<noteq> NodeName pod) nodeIPs)
     \<and> map (\<lambda>r. (SourceNode r, SourcePod r, TestType r, Target r)) results =
         map (\<lambda>r. (SourceNode r, SourcePod r, TestType r, Target r)) acc @
         map (\<lambda>(nodeName, nodeIP). (NodeName pod, Name pod, ''kubelet'', nodeIP @ '':10250 ('' @ nodeName @ '')''))
           (filter (\<lambda>(nodeName, nodeIP). nodeName \<noteq> NodeName pod) nodeIPs)"
proof (induction nodeIPs arbitrary: acc tr w)
  case Nil
  then show ?case by simp
next
  case (Cons e rest)
  obtain nodeName nodeIP where e: "e = (nodeName, nodeIP)" by (cases e)
  show ?case
  proof (cases "nodeName = NodeName pod")
    case True
    with Cons.prems e have "kubeletLoop (logged cl) pod rest acc (tr, w) = (results, tr', w')"
      by simp
    from Cons.IH[OF this] True e show ?thesis by simp
  next
    case False
    let ?cmd = "[''nc'', ''-z'', ''-w'', ''3'', nodeIP, ''10250'']"
    let ?r = "probeResult pod ''kubelet'' (nodeIP @ '':10250 ('' @ nodeName @ '')'')
                (fst (ExecInPod cl (Name pod) ?cmd w))"
    from Cons.prems e False
    have "kubeletLoop (logged cl) pod rest (acc @ [?r])
            (tr @ [Exec (Name pod) ?cmd], snd (ExecInPod cl (Name pod) ?cmd w)) = (results, tr', w')"
      by (simp add: logged_Exec)
    from Cons.IH[OF this] False e show ?thesis by (simp add: probeResult_def)
  qed
qed

lemma podToPodLoop_logged:
  "podToPodLoop (logged cl) pod allPods acc (tr, w) = (results, tr', w') \<Longrightarrow>
     tr' = tr @ map (\<lambda>target. Exec (Name pod) [''nc'', ''-z'', ''-w'', ''3'', PodIP target, ''8080''])
                  (filter (\<lambda>target. Name target \<noteq> Name pod) allPods)
     \<and> map (\<lambda>r. (SourceNode r, SourcePod r, TestType r, Target r)) results =
         map (\<lambda>r. (SourceNode r, SourcePod r, TestType r, Target r)) acc @
         map (\<lambda>target. (NodeName pod, Name pod, ''pod-to-pod'',
                          PodIP target @ '':8080 ('' @ NodeName target @ '')''))
           (filter (\<lambda>target. Name target \<noteq> Name pod) allPods)"
proof (induction allPods arbitrary: acc tr w)
  case Nil
  then show ?case by simp
next
  case (Cons target rest)
  show ?case
  proof (cases "Name target = Name pod")
    case True
    with Cons.prems have "podToPodLoop (logged cl) pod rest acc (tr, w) = (results, tr', w')"
      by simp
    from Cons.IH[OF this] True show ?thesis by simp
  next
    case False
    let ?cmd = "[''nc'', ''-z'', ''-w'', ''3'', PodIP target, testListenPort]"
    let ?r = "probeResult pod ''pod-to-pod''
                (PodIP target @ '':'' @ testListenPort @ '' ('' @ NodeName target @ '')'')
                (fst (ExecInPod cl (Name pod) ?cmd w))"
    from Cons.prems False
    have "podToPodLoop (logged cl) pod rest (acc @ [?r])
            (tr @ [Exec (Name pod) ?cmd], snd (ExecInPod cl (Name pod) ?cmd w)) = (results, tr', w')"
      by (simp add: logged_Exec)
    from Cons.IH[OF this] False show ?thesis by (simp add: probeResult_def testListenPort_def)
  qed
qed

text \<open>
  Claim C5: from a source pod, \<open>TestKubeletConnectivity\<close> issues one probe, and records
  one kubelet result, for each entry of the node-IP map whose node name is not the
  source's node, in order, and none for the entry of the source's own node;
  \<open>TestPodToPod\<close> does so for each pod of the list whose name is not the source pod's
  name, and none for the source pod itself. This holds for every client, every node-IP
  map and every pod list.
\<close>

theorem self_exclusion:
  "fst (snd (TestKubeletConnectivity (logged cl) pod nodeIPs ([], w))) =
     map (\<lambda>(nodeName, nodeIP). Exec (Name pod) [''nc'', ''-z'', ''-w'', ''3'', nodeIP, ''10250''])
       (filter (\<lambda>(nodeName, nodeIP). nodeName \<noteq> NodeName pod) nodeIPs)
   \<and> map (\<lambda>r. (SourceNode r, SourcePod r, TestType r, Target r))
        (fst (TestKubeletConnectivity (logged cl) pod nodeIPs ([], w))) =
     map (\<lambda>(nodeName, nodeIP). (NodeName pod, Name pod, ''kubelet'', nodeIP @ '':10250 ('' @ nodeName @ '')''))
       (filter (\<lambda>(nodeName, nodeIP). nodeName \<noteq> NodeName pod) nodeIPs)
   \<and> fst (snd (TestPodToPod (logged cl) pod allPods ([], w))) =
     map (\<lambda>target. Exec (Name pod) [''nc'', ''-z'', ''-w'', ''3'', PodIP target, ''8080''])
       (filter (\<lambda>target. Name target \<noteq> Name pod) allPods)
   \<and> map (\<lambda>r. (SourceNode r, SourcePod r, TestType r, Target r))
        (fst (TestPodToPod (logged cl) pod allPods ([], w))) =
     map (\<lambda>target. (NodeName pod, Name pod, ''pod-to-pod'',
                      PodIP target @ '':8080 ('' @ NodeName target @ '')''))
       (filter (\<lambda>target. Name target \<noteq> Name pod) allPods)
   \<and> (\<forall>(nodeName, nodeIP) \<in> set (filter (\<lambda>(nodeName, nodeIP). nodeName \<noteq> NodeName pod) nodeIPs).
         nodeName \<noteq> NodeName pod)
   \<and> (\<forall>target \<in> set (filter (\<lambda>target. Name target \<noteq> Name pod) allPods).
         Name target \<noteq> Name pod)"
proof -
  obtain r1 t1 w1 where k: "kubeletLoop (logged cl) pod nodeIPs [] ([], w) = (r1, t1, w1)"
    by (metis prod_cases3)
  obtain r2 t2 w2 where p: "podToPodLoop (logged cl) pod allPods [] ([], w) = (r2, t2, w2)"
    by (metis prod_cases3)
  from kubeletLoop_logged[OF k] podToPodLoop_logged[OF p] k p
  show ?thesis
    by (auto simp: TestKubeletConnectivity_def TestPodToPod_def)
qed

theorem self_exclusion_witness:
  "fst (snd (TestKubeletConnectivity (logged (clusterClient True True [] [] [] [] allSucceed))
              \<lparr> Name = ''nettest-n1'', NodeName = ''n1'', PodIP = ''10.1.0.1'' \<rparr>
              [(''n1'', ''10.0.0.1''), (''n2'', ''10.0.0.2'')] ([], emptyCluster))) =
      [Exec ''nettest-n1'' [''nc'', ''-z'', ''-w'', ''3'', ''10.0.0.2'', ''10250'']]
   \<and> map (\<lambda>r. (SourceNode r, SourcePod r, TestType r, Target r))
        (fst (TestKubeletConnectivity (logged (clusterClient True True [] [] [] [] allSucceed))
              \<lparr> Name = ''nettest-n1'', NodeName = ''n1'', PodIP = ''10.1.0.1'' \<rparr>
              [(''n1'', ''10.0.0.1''), (''n2'', ''10.0.0.2'')] ([], emptyCluster))) =
      [(''n1'', ''nettest-n1'', ''kubelet'', ''10.0.0.2:10250 (n2)'')]
   \<and> fst (snd (TestPodToPod (logged (clusterClient True True [] [] [] [] allSucceed))
              \<lparr> Name = ''nettest-n1'', NodeName = ''n1'', PodIP = ''10.1.0.1'' \<rparr>
              [\<lparr> Name = ''nettest-n1'', NodeName = ''n1'', PodIP = ''10.1.0.1'' \<rparr>,
               \<lparr> Name = ''nettest-n2'', NodeName = ''n2'', PodIP = ''10.1.0.2'' \<rparr>]
              ([], emptyCluster))) =
      [Exec ''nettest-n1'' [''nc'', ''-z'', ''-w'', ''3'', ''10.1.0.2'', ''8080'']]
   \<and> map (\<lambda>r. (SourceNode r, SourcePod r, TestType r, Target r))
        (fst (TestPodToPod (logged (clusterClient True True [] [] [] [] allSucceed))
              \<lparr> Name = ''nettest-n1'', NodeName = ''n1'', PodIP = ''10.1.0.1'' \<rparr>
              [\<lparr> Name = ''nettest-n1'', NodeName = ''n1'', PodIP = ''10.1.0.1'' \<rparr>,
               \<lparr> Name = ''nettest-n2'', NodeName = ''n2'', PodIP = ''10.1.0.2'' \<rparr>]
              ([], emptyCluster))) =
      [(''n1'', ''nettest-n1'', ''pod-to-pod'', ''10.1.0.2:8080 (n2)'')]"
  using self_exclusion
    [of "clusterClient True True [] [] [] [] allSucceed"
        "\<lparr> Name = ''nettest-n1'', NodeName = ''n1'', PodIP = ''10.1.0.1'' \<rparr>"
        "[(''n1'', ''10.0.0.1''), (''n2'', ''10.0.0.2'')]" emptyCluster
        "[\<lparr> Name = ''nettest-n1'', NodeName = ''n1'', PodIP = ''10.1.0.1'' \<rparr>,
          \<lparr> Name = ''nettest-n2'', NodeName = ''n2'', PodIP = ''10.1.0.2'' \<rparr>]"]
  by simp

section \<open>Probe failures are results\<close>

text \<open>
  The test functions have no error result in the source: their type is a result or a
  list of results. What they return, for every outcome of the commands they run:
\<close>

lemma coreDNSLoop_types:
  "map TestType (fst (coreDNSLoop cl pod ips acc s)) =
     map TestType acc @ replicate (length ips) ''coredns''"
  by (induction ips arbitrary: acc s) (auto simp: probeResult_def split: prod.splits)

lemma kubeletLoop_types:
  "map TestType (fst (kubeletLoop cl pod nodeIPs acc s)) =
     map TestType acc @
     replicate (length (filter (\<lambda>(nodeName, nodeIP). nodeName \<noteq> NodeName pod) nodeIPs)) ''kubelet''"
  by (induction nodeIPs arbitrary: acc s) (auto simp: probeResult_def split: prod.splits)

lemma podToPodLoop_types:
  "map TestType (fst (podToPodLoop cl pod allPods acc s)) =
     map TestType acc @
     replicate (length (filter (\<lambda>target. Name target \<noteq> Name pod) allPods)) ''pod-to-pod''"
  by (induction allPods arbitrary: acc s) (auto simp: probeResult_def split: prod.splits)

lemma RunPodTests_types:
  "map TestType (fst (RunPodTests cl pod dnsIPs nodeIPs allPods s)) =
     replicate (length dnsIPs) ''coredns'' @ [''dns'', ''external-tcp'']
     @ replicate (length (filter (\<lambda>(nodeName, nodeIP). nodeName \<noteq> NodeName pod) nodeIPs)) ''kubelet''
     @ replicate (length (filter (\<lambda>target. Name target \<noteq> Name pod) allPods)) ''pod-to-pod''"
proof -
  obtain r1 s1 where t1: "TestCoreDNSConnectivity cl pod dnsIPs s = (r1, s1)" by fastforce
  obtain r2 s2 where t2: "TestDNSResolution cl pod s1 = (r2, s2)" by fastforce
  obtain r3 s3 where t3: "TestExternalTCP cl pod s2 = (r3, s3)" by fastforce
  obtain r4 s4 where t4: "TestKubeletConnectivity cl pod nodeIPs s3 = (r4, s4)" by fastforce
  obtain r5 s5 where t5: "TestPodToPod cl pod allPods s4 = (r5, s5)" by fastforce
  have 1: "map TestType r1 = replicate (length dnsIPs) ''coredns''"
    using coreDNSLoop_types[of cl pod dnsIPs "[]" s] t1 by (simp add: TestCoreDNSConnectivity_def)
  have 2: "TestType r2 = ''dns''"
    using t2 by (auto simp: TestDNSResolution_def probeResult_def split: prod.splits)
  have 3: "TestType r3 = ''external-tcp''"
    using t3 by (auto simp: TestExternalTCP_def probeResult_def split: prod.splits)
  have 4: "map TestType r4 =
      replicate (length (filter (\<lambda>(nodeName, nodeIP). nodeName \<noteq> NodeName pod) nodeIPs)) ''kubelet''"
    using kubeletLoop_types[of cl pod nodeIPs "[]" s3] t4 by (simp add: TestKubeletConnectivity_def)
  have 5: "map TestType r5 =
      replicate (length (filter (\<lambda>target. Name target \<noteq> Name pod) allPods)) ''pod-to-pod''"
    using podToPodLoop_types[of cl pod allPods "[]" s4] t5 by (simp add: TestPodToPod_def)
  show ?thesis
    by (simp add: RunPodTests_def t1 t2 t3 t4 t5 1 2 3 4 5)
qed













section \<open>Cluster-DNS discovery\<close>

text \<open>The hand-written \<open>contains\<close> is containment of a contiguous substring.\<close>

lemma containsSubstring_iff:
  "containsSubstring s substr \<longleftrightarrow> sublist substr s"
proof
  assume "containsSubstring s substr"
  then have "\<exists>i \<in> set [0 ..< Suc (length s - length substr)].
      take (length substr) (drop i s) = substr"
    by (simp add: containsSubstring_def list_ex_iff split: if_splits)
  then obtain i where eq: "take (length substr) (drop i s) = substr"
    by blast
  have "s = take i s @ drop i s"
    by simp
  also have "drop i s = take (length substr) (drop i s) @ drop (length substr) (drop i s)"
    by (simp only: append_take_drop_id)
  finally have "s = take i s @ take (length substr) (drop i s) @ drop (length substr) (drop i s)" .
  with eq have "s = take i s @ substr @ drop (length substr) (drop i s)" by simp
  then show "sublist substr s" unfolding sublist_def by blast
next
  assume "sublist substr s"
  then obtain ps ss where s: "s = ps @ substr @ ss" unfolding sublist_def by blast
  then have mem: "length ps \<in> set [0 ..< Suc (length s - length substr)]"
    and eq: "take (length substr) (drop (length ps) s) = substr"
    by simp_all
  from mem eq have "\<exists>i \<in> set [0 ..< Suc (length s - length substr)].
      take (length substr) (drop i s) = substr"
    by (rule bexI[rotated])
  moreover from s have "\<not> length s < length substr" by simp
  ultimately show "containsSubstring s substr"
    unfolding containsSubstring_def list_ex_iff by (simp only: if_False)
qed

lemma contains_iff: "contains s substr \<longleftrightarrow> sublist substr s"
proof (cases "s = []")
  case True
  then show ?thesis by (auto simp: contains_def)
next
  case False
  have "sublist substr s \<Longrightarrow> length substr \<le> length s"
    by (auto simp: sublist_def)
  with False show ?thesis
    by (auto simp: contains_def containsSubstring_iff)
qed

lemma containsDNSComponent_iff:
  "containsDNSComponent name \<longleftrightarrow> sublist ''coredns'' name \<or> sublist ''kube-dns'' name"
  by (simp add: containsDNSComponent_def contains_iff)

lemma systemPodLoop_eq:
  "systemPodLoop pods acc = acc @ scannedAddresses (Inr pods)"
  by (induction pods arbitrary: acc)
     (auto simp: scannedAddresses_def PodRunning_def containsDNSComponent_iff)

lemma endpointLoop_snapshot:
  assumes snap: "\<forall>name w. fst (endpoints_Get cl name w) = ep name"
  shows "fst (endpointLoop cl names [] s) = (\<exists>name \<in> set names. serviceAddresses (ep name) \<noteq> [])
       \<and> fst (snd (endpointLoop cl names [] s)) =
           (case find (\<lambda>name. serviceAddresses (ep name) \<noteq> []) names of
              None \<Rightarrow> [] | Some name \<Rightarrow> serviceAddresses (ep name))"
proof (induction names arbitrary: s)
  case Nil
  show ?case by simp
next
  case (Cons name names)
  obtain r s' where get: "endpoints_Get cl name s = (r, s')" by fastforce
  with snap have r: "r = ep name" by (metis fst_conv)
  show ?case
  proof (cases r)
    case (Inl err)
    with r have e: "ep name = Inl err" by simp
    from get Inl have "endpointLoop cl (name # names) [] s = endpointLoop cl names [] s'"
      by simp
    with Cons.IH[of s'] e show ?thesis by (simp add: serviceAddresses_def)
  next
    case (Inr subsets)
    with r have e: "ep name = Inr subsets" by simp
    show ?thesis
    proof (cases "concat subsets = []")
      case True
      from get Inr have "endpointLoop cl (name # names) [] s =
          (if 0 < length (concat subsets) then (True, concat subsets, s')
           else endpointLoop cl names (concat subsets) s')"
        by (simp add: Let_def)
      with True have "endpointLoop cl (name # names) [] s = endpointLoop cl names [] s'"
        by (simp only: list.size if_False less_irrefl)
      with Cons.IH[of s'] e True show ?thesis by (simp add: serviceAddresses_def)
    next
      case False
      with get Inr have "endpointLoop cl (name # names) [] s = (True, concat subsets, s')"
        by simp
      with e False show ?thesis by (simp add: serviceAddresses_def)
    qed
  qed
qed

lemma Discover_snapshot:
  assumes snap: "\<forall>name w. fst (endpoints_Get cl name w) = ep name"
    and list: "\<forall>w. fst (pods_List cl w) = sp"
  shows "fst (DiscoverCoreDNSPods cl s) =
     (case find (\<lambda>name. serviceAddresses (ep name) \<noteq> []) serviceNames of
        Some name \<Rightarrow> Inr (serviceAddresses (ep name))
      | None \<Rightarrow>
          (case sp of
             Inl err \<Rightarrow> Inl (ErrListSystemPods err)
           | Inr pods \<Rightarrow> if scannedAddresses sp = [] then Inl ErrNoCoreDNSPods
                         else Inr (scannedAddresses sp)))"
proof -
  obtain found ips s1 where loop: "endpointLoop cl serviceNames [] s = (found, ips, s1)"
    by (metis prod_cases3)
  from endpointLoop_snapshot[OF snap, of serviceNames s] loop
  have found: "found = (\<exists>name \<in> set serviceNames. serviceAddresses (ep name) \<noteq> [])"
    and ips: "ips = (case find (\<lambda>name. serviceAddresses (ep name) \<noteq> []) serviceNames of
              None \<Rightarrow> [] | Some name \<Rightarrow> serviceAddresses (ep name))"
    by simp_all
  show ?thesis
  proof (cases found)
    case True
    with found obtain name where
      "find (\<lambda>name. serviceAddresses (ep name) \<noteq> []) serviceNames = Some name"
      by (cases "find (\<lambda>name. serviceAddresses (ep name) \<noteq> []) serviceNames")
         (auto simp: find_None_iff)
    with True loop ips show ?thesis by (simp add: DiscoverCoreDNSPods_def)
  next
    case False
    with found have none: "find (\<lambda>name. serviceAddresses (ep name) \<noteq> []) serviceNames = None"
      by (auto simp: find_None_iff)
    with ips have empty: "ips = []" by simp
    obtain r s2 where pl: "pods_List cl s1 = (r, s2)" by fastforce
    with list have r: "r = sp" by (metis fst_conv)
    from False loop none empty pl r show ?thesis
      by (cases sp) (auto simp: DiscoverCoreDNSPods_def systemPodLoop_eq)
  qed
qed

lemma find_result:
  "find P xs = Some x \<Longrightarrow> P x \<and> x \<in> set xs"
  by (induction xs) (auto split: if_splits)

lemma Discover_snapshot_isl:
  assumes snap: "\<forall>name w. fst (endpoints_Get cl name w) = ep name"
    and list: "\<forall>w. fst (pods_List cl w) = sp"
  shows "isl (fst (DiscoverCoreDNSPods cl s)) \<longleftrightarrow>
     (\<forall>name \<in> set serviceNames. serviceAddresses (ep name) = []) \<and> scannedAddresses sp = []"
proof (cases "find (\<lambda>name. serviceAddresses (ep name) \<noteq> []) serviceNames")
  case None
  then have "\<forall>name \<in> set serviceNames. serviceAddresses (ep name) = []"
    by (auto simp: find_None_iff)
  with None show ?thesis
    by (cases sp) (auto simp: Discover_snapshot[OF snap list] scannedAddresses_def)
next
  case (Some name)
  with find_result[OF Some] show ?thesis
    by (auto simp: Discover_snapshot[OF snap list])
qed

lemma Discover_snapshot_Inr:
  assumes snap: "\<forall>name w. fst (endpoints_Get cl name w) = ep name"
    and list: "\<forall>w. fst (pods_List cl w) = sp"
    and ret: "fst (DiscoverCoreDNSPods cl s) = Inr ips"
  shows "ips \<noteq> [] \<and> ips = (case find (\<lambda>name. serviceAddresses (ep name) \<noteq> []) serviceNames of
                             Some name \<Rightarrow> serviceAddresses (ep name) | None \<Rightarrow> scannedAddresses sp)"
proof (cases "find (\<lambda>name. serviceAddresses (ep name) \<noteq> []) serviceNames")
  case None
  with ret show ?thesis
    by (cases sp) (auto simp: Discover_snapshot[OF snap list] split: if_splits)
next
  case (Some name)
  with find_result[OF Some] ret show ?thesis
    by (auto simp: Discover_snapshot[OF snap list])
qed

lemma length_schedule: "length (schedule order n) = n"
  by (simp add: schedule_def)

lemma runTasks_types:
  "map TestType (fst (runTasks cl tasks dnsIPs nodeIPs pods acc s)) =
     map TestType acc @
     concat (map (\<lambda>p. replicate (length dnsIPs) ''coredns'' @ [''dns'', ''external-tcp'']
        @ replicate (length (filter (\<lambda>(nodeName, nodeIP). nodeName \<noteq> NodeName p) nodeIPs)) ''kubelet''
        @ replicate (length (filter (\<lambda>target. Name target \<noteq> Name p) pods)) ''pod-to-pod'') tasks)"
proof (induction tasks arbitrary: acc s)
  case Nil
  show ?case by simp
next
  case (Cons p tasks)
  obtain rs s' where run: "RunPodTests cl p dnsIPs nodeIPs pods s = (rs, s')" by fastforce
  with RunPodTests_types[of cl p dnsIPs nodeIPs pods s]
  have "map TestType rs = replicate (length dnsIPs) ''coredns'' @ [''dns'', ''external-tcp'']
        @ replicate (length (filter (\<lambda>(nodeName, nodeIP). nodeName \<noteq> NodeName p) nodeIPs)) ''kubelet''
        @ replicate (length (filter (\<lambda>target. Name target \<noteq> Name p) pods)) ''pod-to-pod''"
    by simp
  with Cons.IH[of "acc @ rs" s'] run show ?case by simp
qed

lemma count_by_type:
  "length (filter (\<lambda>r. TestType r = t) rs) = length (filter (\<lambda>x. x = t) (map TestType rs))"
  by (induction rs) auto

lemma length_concat_singletons: "length (concat (map (\<lambda>p. [x]) tasks)) = length tasks"
  by (induction tasks) auto

lemma runTasks_without_dns:
  "filter (\<lambda>r. TestType r = ''coredns'') (fst (runTasks cl tasks [] nodeIPs pods [] s)) = []
   \<and> length (filter (\<lambda>r. TestType r = ''dns'') (fst (runTasks cl tasks [] nodeIPs pods [] s)))
       = length tasks
   \<and> length (filter (\<lambda>r. TestType r = ''external-tcp'') (fst (runTasks cl tasks [] nodeIPs pods [] s)))
       = length tasks"
proof -
  let ?rs = "fst (runTasks cl tasks [] nodeIPs pods [] s)"
  note types = runTasks_types[of cl tasks "[]" nodeIPs pods "[]" s]
  have "length (filter (\<lambda>r. TestType r = ''coredns'') ?rs) = 0"
    unfolding count_by_type types by (simp add: filter_concat o_def)
  moreover have "length (filter (\<lambda>r. TestType r = ''dns'') ?rs) = length tasks"
    unfolding count_by_type types by (simp add: filter_concat o_def length_concat_singletons)
  moreover have "length (filter (\<lambda>r. TestType r = ''external-tcp'') ?rs) = length tasks"
    unfolding count_by_type types by (simp add: filter_concat o_def length_concat_singletons)
  ultimately show ?thesis by simp
qed

lemma RunAllTests_without_dns:
  "filter (\<lambda>r. TestType r = ''coredns'') (fst (RunAllTests cl pods [] nodeIPs s)) = []
   \<and> length (filter (\<lambda>r. TestType r = ''dns'') (fst (RunAllTests cl pods [] nodeIPs s)))
       = length pods
   \<and> length (filter (\<lambda>r. TestType r = ''external-tcp'') (fst (RunAllTests cl pods [] nodeIPs s)))
       = length pods"
  using runTasks_without_dns[of cl "map (\<lambda>i. pods ! i) (schedule (sched cl) (length pods))" nodeIPs pods s]
  by (simp add: RunAllTests_def length_schedule)

lemma runDeferred_without_dns:
  assumes wait: "WaitForPodsReady cl testPods s = (Inr readyPods, s1)"
    and none: "isl (fst (DiscoverCoreDNSPods cl s1))"
  shows "\<exists>report s'. runDeferred cl rep readyNodes testPods s = (Inr report, s')
      \<and> filter (\<lambda>r. TestType r = ''coredns'') (TestResults report) = []
      \<and> int (length (filter (\<lambda>r. TestType r = ''dns'') (TestResults report))) = PodCount report
      \<and> int (length (filter (\<lambda>r. TestType r = ''external-tcp'') (TestResults report))) = PodCount report"
proof -
  obtain d s2 where disc: "DiscoverCoreDNSPods cl s1 = (d, s2)" by fastforce
  with none obtain err where d: "d = Inl err" by (cases d) auto
  obtain results s4 where run:
    "RunAllTests cl readyPods [] (GetNodeInternalIPs readyNodes) (StartListeners cl readyPods s2)
       = (results, s4)" by fastforce
  from RunAllTests_without_dns[of cl readyPods "GetNodeInternalIPs readyNodes" "StartListeners cl readyPods s2"] run
  have "filter (\<lambda>r. TestType r = ''coredns'') results = []
      \<and> length (filter (\<lambda>r. TestType r = ''dns'') results) = length readyPods
      \<and> length (filter (\<lambda>r. TestType r = ''external-tcp'') results) = length readyPods"
    by simp
  with wait disc d run show ?thesis
    by (simp add: runDeferred_def Let_def)
qed

lemma runDeferred_Inr:
  "runDeferred cl rep readyNodes testPods s = (Inr report, s') \<Longrightarrow>
     \<exists>readyPods s1. WaitForPodsReady cl testPods s = (Inr readyPods, s1)"
  by (auto simp: runDeferred_def split: prod.splits sum.splits)

lemma Run_Inr:
  "fst (Run cl s) = Inr report \<Longrightarrow>
     \<exists>rep readyNodes testPods s4 s5. runDeferred cl rep readyNodes testPods s4 = (Inr report, s5)"
  apply (simp add: Run_def Let_def split: prod.splits option.splits sum.splits if_splits)
  apply blast
  done

lemma Run_without_dns:
  assumes none: "\<And>s1. isl (fst (DiscoverCoreDNSPods cl s1))"
    and run: "fst (Run cl s) = Inr report"
  shows "filter (\<lambda>r. TestType r = ''coredns'') (TestResults report) = []
      \<and> int (length (filter (\<lambda>r. TestType r = ''dns'') (TestResults report))) = PodCount report
      \<and> int (length (filter (\<lambda>r. TestType r = ''external-tcp'') (TestResults report))) = PodCount report"
proof -
  from Run_Inr[OF run] obtain rep readyNodes testPods s4 s5
    where def: "runDeferred cl rep readyNodes testPods s4 = (Inr report, s5)" by blast
  from runDeferred_Inr[OF def] obtain readyPods s1
    where wait: "WaitForPodsReady cl testPods s4 = (Inr readyPods, s1)" by blast
  from runDeferred_without_dns[OF wait none, of rep readyNodes] def
  show ?thesis by auto
qed

lemma endpointLoop_found:
  "endpointLoop cl names acc s = (True, ips, s') \<Longrightarrow> ips \<noteq> []"
  by (induction names arbitrary: acc s)
     (auto simp: Let_def split: prod.splits sum.splits if_splits)

lemma Discover_nonempty:
  "fst (DiscoverCoreDNSPods cl s) = Inr ips \<Longrightarrow> ips \<noteq> []"
  by (auto simp: DiscoverCoreDNSPods_def Let_def
        split: prod.splits sum.splits if_splits bool.splits dest: endpointLoop_found)

text \<open>
  Claim C4: on a cluster that answers the endpoint lookups with \<open>ep\<close> and the listing
  of the system pods with \<open>sp\<close>, \<open>DiscoverCoreDNSPods\<close> returns an error exactly when
  no service name has an address and the scan of the system pods finds none (a failed
  lookup or listing finds none); otherwise it returns, without error, the addresses of
  the first service name that has some, or else those of the scan. On every cluster, a
  list returned without error is not empty. When it errors, the run goes on: once the pods are ready, \<open>Run\<close>'s
  remaining statements return a report; the report has no coredns result, and still one
  dns and one external-tcp result per pod.
\<close>

theorem DiscoverCoreDNSPods_error_iff:
  "((\<forall>name w. fst (endpoints_Get cl name w) = ep name) \<and> (\<forall>w. fst (pods_List cl w) = sp) \<longrightarrow>
      (isl (fst (DiscoverCoreDNSPods cl s)) \<longleftrightarrow>
         (\<forall>name \<in> set serviceNames. serviceAddresses (ep name) = []) \<and> scannedAddresses sp = [])
      \<and> (\<forall>ips. fst (DiscoverCoreDNSPods cl s) = Inr ips \<longrightarrow>
            ips \<noteq> []
            \<and> ips = (case find (\<lambda>name. serviceAddresses (ep name) \<noteq> []) serviceNames of
                       Some name \<Rightarrow> serviceAddresses (ep name)
                     | None \<Rightarrow> scannedAddresses sp))
      \<and> ((\<forall>name \<in> set serviceNames. serviceAddresses (ep name) = []) \<and> scannedAddresses sp = []
           \<and> fst (Run cl s) = Inr report \<longrightarrow>
            filter (\<lambda>r. TestType r = ''coredns'') (TestResults report) = []
            \<and> int (length (filter (\<lambda>r. TestType r = ''dns'') (TestResults report)))
                = PodCount report
            \<and> int (length (filter (\<lambda>r. TestType r = ''external-tcp'') (TestResults report)))
                = PodCount report))
   \<and> (WaitForPodsReady cl testPods s = (Inr readyPods, s1)
        \<and> isl (fst (DiscoverCoreDNSPods cl s1)) \<longrightarrow>
       (\<exists>report s'. runDeferred cl rep readyNodes testPods s = (Inr report, s')
          \<and> filter (\<lambda>r. TestType r = ''coredns'') (TestResults report) = []))
   \<and> (\<forall>found. fst (DiscoverCoreDNSPods cl s) = Inr found \<longrightarrow> found \<noteq> [])"
  (is "?onSnapshot \<and> ?proceeds \<and> ?nonempty")
proof -
  have snapshot: "(isl (fst (DiscoverCoreDNSPods cl s)) \<longleftrightarrow>
         (\<forall>name \<in> set serviceNames. serviceAddresses (ep name) = []) \<and> scannedAddresses sp = [])
      \<and> (\<forall>ips. fst (DiscoverCoreDNSPods cl s) = Inr ips \<longrightarrow>
            ips \<noteq> []
            \<and> ips = (case find (\<lambda>name. serviceAddresses (ep name) \<noteq> []) serviceNames of
                       Some name \<Rightarrow> serviceAddresses (ep name)
                     | None \<Rightarrow> scannedAddresses sp))
      \<and> ((\<forall>name \<in> set serviceNames. serviceAddresses (ep name) = []) \<and> scannedAddresses sp = []
           \<and> fst (Run cl s) = Inr report \<longrightarrow>
            filter (\<lambda>r. TestType r = ''coredns'') (TestResults report) = []
            \<and> int (length (filter (\<lambda>r. TestType r = ''dns'') (TestResults report)))
                = PodCount report
            \<and> int (length (filter (\<lambda>r. TestType r = ''external-tcp'') (TestResults report)))
                = PodCount report)"
    if snap: "\<forall>name w. fst (endpoints_Get cl name w) = ep name"
      and list: "\<forall>w. fst (pods_List cl w) = sp"
  proof -
    note iff = Discover_snapshot_isl[OF snap list]
    have a: "isl (fst (DiscoverCoreDNSPods cl s)) \<longleftrightarrow>
         (\<forall>name \<in> set serviceNames. serviceAddresses (ep name) = []) \<and> scannedAddresses sp = []"
      by (rule iff)
    have b: "\<forall>ips. fst (DiscoverCoreDNSPods cl s) = Inr ips \<longrightarrow>
            ips \<noteq> []
            \<and> ips = (case find (\<lambda>name. serviceAddresses (ep name) \<noteq> []) serviceNames of
                       Some name \<Rightarrow> serviceAddresses (ep name)
                     | None \<Rightarrow> scannedAddresses sp)"
      using Discover_snapshot_Inr[OF snap list] by blast
    have c: "(\<forall>name \<in> set serviceNames. serviceAddresses (ep name) = []) \<and> scannedAddresses sp = []
           \<and> fst (Run cl s) = Inr report \<longrightarrow>
            filter (\<lambda>r. TestType r = ''coredns'') (TestResults report) = []
            \<and> int (length (filter (\<lambda>r. TestType r = ''dns'') (TestResults report)))
                = PodCount report
            \<and> int (length (filter (\<lambda>r. TestType r = ''external-tcp'') (TestResults report)))
                = PodCount report"
    proof
      assume h: "(\<forall>name \<in> set serviceNames. serviceAddresses (ep name) = [])
           \<and> scannedAddresses sp = [] \<and> fst (Run cl s) = Inr report"
      then have "isl (fst (DiscoverCoreDNSPods cl s1))" for s1
        using iff[of s1] by blast
      from Run_without_dns[OF this, of s report] h
      show "filter (\<lambda>r. TestType r = ''coredns'') (TestResults report) = []
            \<and> int (length (filter (\<lambda>r. TestType r = ''dns'') (TestResults report)))
                = PodCount report
            \<and> int (length (filter (\<lambda>r. TestType r = ''external-tcp'') (TestResults report)))
                = PodCount report"
        by blast
    qed
    from a b c show ?thesis by blast
  qed
  have proceeds: "WaitForPodsReady cl testPods s = (Inr readyPods, s1)
        \<and> isl (fst (DiscoverCoreDNSPods cl s1)) \<longrightarrow>
       (\<exists>report s'. runDeferred cl rep readyNodes testPods s = (Inr report, s')
          \<and> filter (\<lambda>r. TestType r = ''coredns'') (TestResults report) = [])"
    using runDeferred_without_dns[of cl testPods s readyPods s1 rep readyNodes] by blast
  have nonempty: "\<forall>found. fst (DiscoverCoreDNSPods cl s) = Inr found \<longrightarrow> found \<noteq> []"
  proof (intro allI impI)
    fix found assume "fst (DiscoverCoreDNSPods cl s) = Inr found"
    then show "found \<noteq> []" by (rule Discover_nonempty)
  qed
  have onSnapshot: ?onSnapshot
    by (rule impI, elim conjE, rule snapshot, assumption+)
  show ?thesis
    by (rule conjI[OF onSnapshot conjI[OF proceeds nonempty]])
qed

theorem DiscoverCoreDNSPods_error_iff_witness:
  "fst (DiscoverCoreDNSPods bareCluster emptyCluster) = Inl ErrNoCoreDNSPods
   \<and> fst (Run bareCluster emptyCluster) =
       Inr \<lparr> Timestamp = 0, NodeCount = 1, PodCount = 1,
             TestResults =
               [\<lparr> SourceNode = ''n1'', SourcePod = ''nettest-n1'', TestType = ''dns'',
                   Target = ''github.com'', Success = True, Error = [] \<rparr>,
                \<lparr> SourceNode = ''n1'', SourcePod = ''nettest-n1'', TestType = ''external-tcp'',
                   Target = ''github.com:443'', Success = True, Error = [] \<rparr>],
             Summary = \<lparr> Total = 2, Passed = 2, Failed = 0 \<rparr> \<rparr>
   \<and> isl (fst (DiscoverCoreDNSPods bareCluster emptyCluster))
   \<and> list_all (\<lambda>name. serviceAddresses
                 (case map_of [(''kube-dns'', [[]])] name of
                    None \<Rightarrow> Inl NotFound | Some subsets \<Rightarrow> Inr subsets) = []) serviceNames
   \<and> fst (DiscoverCoreDNSPods
           (clusterClient True True [] [(''coredns'', [[''10.96.0.10''], [''10.96.0.11'']])] []
              [] allSucceed) emptyCluster) = Inr [''10.96.0.10'', ''10.96.0.11'']"
proof -
  let ?ep = "\<lambda>name. case map_of [(''kube-dns'', [[]])] name of
                    None \<Rightarrow> Inl NotFound | Some subsets \<Rightarrow> Inr subsets"
  let ?sp = "Inr [\<lparr> sys_Name = ''etcd-n1'',
          sys_Status = \<lparr> status_Phase = ''Running'', status_ContainerStatuses = [],
                         status_PodIP = ''10.0.0.1'' \<rparr> \<rparr>,
        \<lparr> sys_Name = ''coredns-5d78c9869d-abcde'',
          sys_Status = \<lparr> status_Phase = ''Pending'', status_ContainerStatuses = [],
                         status_PodIP = [] \<rparr> \<rparr>] :: api_error + SystemPod list"
  let ?report = "\<lparr> Timestamp = 0, NodeCount = 1, PodCount = 1,
             TestResults =
               [\<lparr> SourceNode = ''n1'', SourcePod = ''nettest-n1'', TestType = ''dns'',
                   Target = ''github.com'', Success = True, Error = [] \<rparr>,
                \<lparr> SourceNode = ''n1'', SourcePod = ''nettest-n1'', TestType = ''external-tcp'',
                   Target = ''github.com:443'', Success = True, Error = [] \<rparr>],
             Summary = \<lparr> Total = 2, Passed = 2, Failed = 0 \<rparr> \<rparr>"
  have snap: "\<forall>name w. fst (endpoints_Get bareCluster name w) = ?ep name"
    by (simp add: bareCluster_def clusterClient_def)
  have list: "\<forall>w. fst (pods_List bareCluster w) = ?sp"
    by (simp add: bareCluster_def clusterClient_def)
  have services: "list_all (\<lambda>name. serviceAddresses (?ep name) = []) serviceNames"
    by code_simp
  have scan: "scannedAddresses ?sp = []"
    by code_simp
  have run: "fst (Run bareCluster emptyCluster) = Inr ?report"
    by code_simp
  have err: "fst (DiscoverCoreDNSPods bareCluster emptyCluster) = Inl ErrNoCoreDNSPods"
    by code_simp
  have found: "fst (DiscoverCoreDNSPods
           (clusterClient True True [] [(''coredns'', [[''10.96.0.10''], [''10.96.0.11'']])] []
              [] allSucceed) emptyCluster) = Inr [''10.96.0.10'', ''10.96.0.11'']"
    by code_simp
  note rule = DiscoverCoreDNSPods_error_iff [of bareCluster ?ep ?sp emptyCluster ?report]
  from rule snap list services scan
  have "isl (fst (DiscoverCoreDNSPods bareCluster emptyCluster))"
    unfolding list_all_iff by blast
  with err run services found show ?thesis by blast
qed

section \<open>The order of the API calls\<close>

text \<open>What each step of \<open>Run\<close> adds to the log of a logged client.\<close>

lemma logged_ns_Create:
  "ns_Create (logged cl) (tr, w) =
     (fst (ns_Create cl w), tr @ [NamespacesCreate], snd (ns_Create cl w))"
  by (simp add: logged_def logCall_def split: prod.splits)

lemma logged_ns_Delete:
  "ns_Delete (logged cl) (tr, w) =
     (fst (ns_Delete cl w), tr @ [NamespacesDelete], snd (ns_Delete cl w))"
  by (simp add: logged_def logCall_def split: prod.splits)

lemma logged_ns_Get:
  "ns_Get (logged cl) (tr, w) = (fst (ns_Get cl w), tr @ [NamespacesGet], snd (ns_Get cl w))"
  by (simp add: logged_def logCall_def split: prod.splits)

lemma logged_nodes_List:
  "nodes_List (logged cl) (tr, w) =
     (fst (nodes_List cl w), tr @ [NodesList], snd (nodes_List cl w))"
  by (simp add: logged_def logCall_def split: prod.splits)

lemma logged_ticks: "cleanupTicks (logged cl) = cleanupTicks cl"
  by (simp add: logged_def)

lemma EnsureNamespace_trace:
  "EnsureNamespace (logged cl) (tr, w) = (r, tr', w') \<Longrightarrow> tr' = tr @ [NamespacesCreate]"
  by (auto simp: EnsureNamespace_def logged_ns_Create split: option.splits if_splits)

lemma namespaceGone_trace:
  "namespaceGone (logged cl) (tr, w) = (r, tr', w') \<Longrightarrow> tr' = tr @ [NamespacesGet]"
  by (auto simp: namespaceGone_def logged_ns_Get split: option.splits if_splits)

lemma pollTicks_gone_trace:
  "pollTicks (namespaceGone (logged cl)) n (tr, w) = (r, m, tr', w') \<Longrightarrow>
     \<exists>k. tr' = tr @ replicate k NamespacesGet"
proof (induction n arbitrary: tr w)
  case 0
  then have "tr' = tr @ replicate 0 NamespacesGet" by simp
  then show ?case by blast
next
  case (Suc n)
  obtain g tr1 w1 where g: "namespaceGone (logged cl) (tr, w) = (g, tr1, w1)"
    by (metis prod_cases3)
  from namespaceGone_trace[OF g] have tr1: "tr1 = tr @ [NamespacesGet]" .
  show ?case
  proof (cases g)
    case None
    with Suc.prems g have "pollTicks (namespaceGone (logged cl)) n (tr1, w1) = (r, m, tr', w')"
      by simp
    from Suc.IH[OF this] obtain k where "tr' = tr1 @ replicate k NamespacesGet" by blast
    with tr1 have "tr' = tr @ replicate (Suc k) NamespacesGet" by simp
    then show ?thesis by blast
  next
    case (Some u)
    with Suc.prems g tr1 have "tr' = tr @ replicate 1 NamespacesGet" by simp
    then show ?thesis by blast
  qed
qed

lemma CleanupTestPods_trace:
  "CleanupTestPods (logged cl) (tr, w) = (r, tr', w') \<Longrightarrow>
     \<exists>k. tr' = tr @ NamespacesDelete # replicate k NamespacesGet"
proof -
  assume run: "CleanupTestPods (logged cl) (tr, w) = (r, tr', w')"
  let ?s1 = "(tr @ [NamespacesDelete], snd (ns_Delete cl w))"
  show ?thesis
  proof (cases "fst (ns_Delete cl w)")
    case (Some err)
    with run have "tr' = tr @ NamespacesDelete # replicate 0 NamespacesGet"
      by (auto simp: CleanupTestPods_def logged_ns_Delete split: if_splits)
    then show ?thesis by blast
  next
    case None
    obtain g tr1 w1 where g: "namespaceGone (logged cl) ?s1 = (g, tr1, w1)"
      by (metis prod_cases3)
    from namespaceGone_trace[OF g] have tr1: "tr1 = tr @ [NamespacesDelete, NamespacesGet]"
      by simp
    show ?thesis
    proof (cases g)
      case (Some u)
      with run None g tr1 have "tr' = tr @ NamespacesDelete # replicate 1 NamespacesGet"
        by (auto simp: CleanupTestPods_def logged_ns_Delete pollImmediate_def)
      then show ?thesis by blast
    next
      case gn: None
      obtain r2 m2 tr2 w2 where p:
        "pollTicks (namespaceGone (logged cl)) (cleanupTicks cl) (tr1, w1) = (r2, m2, tr2, w2)"
        by (metis prod_cases4)
      from pollTicks_gone_trace[OF p] obtain k where "tr2 = tr1 @ replicate k NamespacesGet"
        by blast
      with tr1 have tr2: "tr2 = tr @ NamespacesDelete # replicate (Suc k) NamespacesGet"
        by simp
      from run None g gn p have "tr' = tr2"
        by (auto simp: CleanupTestPods_def logged_ns_Delete pollImmediate_def logged_ticks)
      with tr2 show ?thesis by blast
    qed
  qed
qed

lemma runDeferred_result:
  "runDeferred cl rep readyNodes testPods s = (res, s') \<Longrightarrow>
     (\<exists>p. res = Inl (ErrPodsNotReady p)) \<or> (\<exists>report. res = Inr report)"
  by (auto simp: runDeferred_def Let_def split: prod.splits sum.splits)

lemma Run_exit_paths:
  assumes run: "Run (logged cl) ([], w) = (res, tr, w')"
  shows "case res of
       Inl (ErrCreateNamespace err) \<Rightarrow> tr = [NamespacesCreate]
     | Inl (ErrListNodes err) \<Rightarrow>
         \<exists>k. tr = NamespacesCreate # NamespacesDelete # replicate k NamespacesGet @ [NodesList]
     | Inl ErrNoReadyNodes \<Rightarrow>
         \<exists>k. tr = NamespacesCreate # NamespacesDelete # replicate k NamespacesGet @ [NodesList]
     | Inl (ErrCreateTestPods nodeName err) \<Rightarrow>
         \<exists>pre k. tr = pre @ NamespacesDelete # replicate k NamespacesGet
     | Inl (ErrPodsNotReady podName) \<Rightarrow>
         \<exists>pre k. tr = pre @ NamespacesDelete # replicate k NamespacesGet
     | Inr report \<Rightarrow>
         \<exists>pre k. tr = pre @ NamespacesDelete # replicate k NamespacesGet"
proof -
  obtain e1 tr1 w1 where en: "EnsureNamespace (logged cl) ([], w) = (e1, tr1, w1)"
    by (metis prod_cases3)
  from EnsureNamespace_trace[OF en] have tr1: "tr1 = [NamespacesCreate]" by simp
  show ?thesis
  proof (cases e1)
    case (Some err)
    with run en tr1 have "res = Inl (ErrCreateNamespace err) \<and> tr = [NamespacesCreate]"
      by (auto simp: Run_def)
    then show ?thesis by simp
  next
    case None
    obtain c2 tr2 w2 where cl2: "CleanupTestPods (logged cl) (tr1, w1) = (c2, tr2, w2)"
      by (metis prod_cases3)
    from CleanupTestPods_trace[OF cl2] tr1 obtain k where
      tr2: "tr2 = NamespacesCreate # NamespacesDelete # replicate k NamespacesGet" by auto
    let ?tr3 = "tr2 @ [NodesList]"
    let ?w3 = "snd (nodes_List cl w2)"
    show ?thesis
    proof (cases "fst (nodes_List cl w2)")
      case (Inl err)
      with run en None cl2 have "res = Inl (ErrListNodes err) \<and> tr = ?tr3"
        by (auto simp: Run_def logged_nodes_List)
      with tr2 show ?thesis by simp
    next
      case (Inr nodes)
      show ?thesis
      proof (cases "filterReadyNodes nodes = []")
        case True
        with run en None cl2 Inr have "res = Inl ErrNoReadyNodes \<and> tr = ?tr3"
          by (auto simp: Run_def logged_nodes_List)
        with tr2 show ?thesis by simp
      next
        case False
        obtain r4 tr4 w4 where cr:
          "CreateTestPods (logged cl) (filterReadyNodes nodes) (?tr3, ?w3) = (r4, tr4, w4)"
          by (metis prod_cases3)
        show ?thesis
        proof (cases r4)
          case (Inl failure)
          obtain nodeName err where f: "failure = (nodeName, err)" by (cases failure)
          obtain c5 tr5 w5 where cl5: "CleanupTestPods (logged cl) (tr4, w4) = (c5, tr5, w5)"
            by (metis prod_cases3)
          from run en None cl2 Inr False cr Inl f cl5
          have eq: "res = Inl (ErrCreateTestPods nodeName err)" and "tr = tr5"
            by (auto simp: Run_def logged_nodes_List Let_def)
          with CleanupTestPods_trace[OF cl5]
          have ex: "\<exists>pre k. tr = pre @ NamespacesDelete # replicate k NamespacesGet" by blast
          from eq ex show ?thesis by simp
        next
          case (Inr testPods)
          obtain r5 tr5 w5 where df: "runDeferred (logged cl)
              \<lparr> Timestamp = clock (logged cl) ([], w),
                NodeCount = int (length (filterReadyNodes nodes)), PodCount = 0,
                TestResults = [], Summary = \<lparr> Total = 0, Passed = 0, Failed = 0 \<rparr> \<rparr>
              (filterReadyNodes nodes) testPods (tr4, w4) = (r5, tr5, w5)"
            by (metis prod_cases3)
          obtain c6 tr6 w6 where cl6: "CleanupTestPods (logged cl) (tr5, w5) = (c6, tr6, w6)"
            by (metis prod_cases3)
          from run en None cl2 \<open>fst (nodes_List cl w2) = Inr nodes\<close> False cr Inr df cl6
          have eq: "res = r5" and "tr = tr6"
            by (auto simp: Run_def logged_nodes_List Let_def)
          with CleanupTestPods_trace[OF cl6]
          have ex: "\<exists>pre k. tr = pre @ NamespacesDelete # replicate k NamespacesGet" by blast
          from runDeferred_result[OF df] show ?thesis
          proof (elim disjE exE)
            fix p assume "r5 = Inl (ErrPodsNotReady p)"
            with eq ex show ?thesis by simp
          next
            fix report assume "r5 = Inr report"
            with eq ex show ?thesis by simp
          qed
        qed
      qed
    qed
  qed
qed

text \<open>Every later step only appends to the log.\<close>

lemma logged_pods_Create:
  "pods_Create (logged cl) p (tr, w) =
     (fst (pods_Create cl p w), tr @ [PodsCreate (pod_Name p)], snd (pods_Create cl p w))"
  by (simp add: logged_def logCall_def split: prod.splits)

lemma logged_pods_Get:
  "pods_Get (logged cl) name (tr, w) =
     (fst (pods_Get cl name w), tr @ [PodsGet name], snd (pods_Get cl name w))"
  by (simp add: logged_def logCall_def split: prod.splits)

lemma logged_endpoints_Get:
  "endpoints_Get (logged cl) name (tr, w) =
     (fst (endpoints_Get cl name w), tr @ [EndpointsGet name], snd (endpoints_Get cl name w))"
  by (simp add: logged_def logCall_def split: prod.splits)

lemma logged_pods_List:
  "pods_List (logged cl) (tr, w) = (fst (pods_List cl w), tr @ [PodsList], snd (pods_List cl w))"
  by (simp add: logged_def logCall_def split: prod.splits)

lemma prefix_step: "prefix (tr @ [c]) tr' \<Longrightarrow> prefix tr tr'"
  by (rule append_prefixD)

lemma createLoop_grows:
  "prefix tr (fst (snd (createLoop (logged cl) nodes acc (tr, w))))"
proof (induction nodes arbitrary: acc tr w)
  case Nil
  show ?case by simp
next
  case (Cons node nodes)
  show ?case
    using Cons.IH[THEN prefix_step]
    by (auto simp: logged_pods_Create Let_def split: option.splits)
qed

lemma createLoop_first:
  "nodes \<noteq> [] \<Longrightarrow>
     prefix (tr @ [PodsCreate (testPodPrefix @ sanitizeNodeName (node_Name (hd nodes)))])
       (fst (snd (createLoop (logged cl) nodes acc (tr, w))))"
  by (cases nodes)
     (auto simp: logged_pods_Create Let_def testPodFor_def createLoop_grows split: option.splits)

lemma podReadyCheck_trace:
  "fst (snd (podReadyCheck (logged cl) name (tr, w))) = tr @ [PodsGet name]"
  by (auto simp: podReadyCheck_def logged_pods_Get split: sum.splits)

lemma pollTicks_ready_grows:
  "prefix tr (fst (snd (snd (pollTicks (podReadyCheck (logged cl) name) n (tr, w)))))"
proof (induction n arbitrary: tr w)
  case 0
  show ?case by simp
next
  case (Suc n)
  obtain r tr1 w1 where c: "podReadyCheck (logged cl) name (tr, w) = (r, tr1, w1)"
    by (metis prod_cases3)
  with podReadyCheck_trace[of cl name tr w] have tr1: "tr1 = tr @ [PodsGet name]" by simp
  show ?case
    using Suc.IH[of tr1 w1] c tr1 by (cases r) (auto dest: prefix_step)
qed

lemma pollImmediate_ready_grows:
  "prefix tr (fst (snd (snd (pollImmediate (podReadyCheck (logged cl) name) n (tr, w)))))"
proof -
  obtain r tr1 w1 where c: "podReadyCheck (logged cl) name (tr, w) = (r, tr1, w1)"
    by (metis prod_cases3)
  with podReadyCheck_trace[of cl name tr w] have tr1: "tr1 = tr @ [PodsGet name]" by simp
  show ?thesis
    using pollTicks_ready_grows[of tr1 cl name n w1] c tr1
    by (cases r) (auto simp: pollImmediate_def dest: prefix_step)
qed

lemma waitLoop_grows:
  "prefix tr (fst (snd (waitLoop (logged cl) ready pods n (tr, w))))"
proof (induction pods arbitrary: ready n tr w)
  case Nil
  show ?case by simp
next
  case (Cons pod pods)
  obtain r m tr1 w1 where p:
    "pollImmediate (podReadyCheck (logged cl) (Name pod)) n (tr, w) = (r, m, tr1, w1)"
    by (metis prod_cases4)
  with pollImmediate_ready_grows[of tr cl "Name pod" n w] have g: "prefix tr tr1" by simp
  show ?case
  proof (cases r)
    case None
    with p g show ?thesis by simp
  next
    case (Some ip)
    with p g Cons.IH[of tr1 "ready @ [pod\<lparr>PodIP := ip\<rparr>]" m w1] show ?thesis
      by (auto intro: prefix_order.trans)
  qed
qed

lemma endpointLoop_grows:
  "prefix tr (fst (snd (snd (endpointLoop (logged cl) names acc (tr, w)))))"
proof (induction names arbitrary: acc tr w)
  case Nil
  show ?case by simp
next
  case (Cons name names)
  show ?case
    using Cons.IH[THEN prefix_step]
    by (auto simp: logged_endpoints_Get Let_def split: sum.splits)
qed

lemma Discover_grows:
  "prefix tr (fst (snd (DiscoverCoreDNSPods (logged cl) (tr, w))))"
proof -
  obtain f ips tr1 w1 where l: "endpointLoop (logged cl) serviceNames [] (tr, w) = (f, ips, tr1, w1)"
    by (metis prod_cases4)
  with endpointLoop_grows[of tr cl serviceNames "[]" w] have g: "prefix tr tr1" by simp
  then have "prefix tr (tr1 @ [PodsList])" by (simp add: prefix_prefix)
  with l g show ?thesis
    by (cases f) (auto simp: DiscoverCoreDNSPods_def logged_pods_List Let_def split: sum.splits)
qed

lemma StartListeners_grows:
  "prefix tr (fst (StartListeners (logged cl) pods (tr, w)))"
proof (induction pods arbitrary: tr w)
  case Nil
  show ?case by simp
next
  case (Cons pod pods)
  show ?case
    using Cons.IH[THEN prefix_step] by (simp add: logged_Exec)
qed

lemma coreDNSLoop_grows:
  "prefix tr (fst (snd (coreDNSLoop (logged cl) pod ips acc (tr, w))))"
proof (induction ips arbitrary: acc tr w)
  case Nil
  show ?case by simp
next
  case (Cons ip ips)
  show ?case
    using Cons.IH[THEN prefix_step] by (simp add: logged_Exec)
qed

lemma kubeletLoop_grows:
  "prefix tr (fst (snd (kubeletLoop (logged cl) pod nodeIPs acc (tr, w))))"
proof -
  obtain r tr' w' where k: "kubeletLoop (logged cl) pod nodeIPs acc (tr, w) = (r, tr', w')"
    by (metis prod_cases3)
  from kubeletLoop_logged[OF k] k show ?thesis by simp
qed

lemma podToPodLoop_grows:
  "prefix tr (fst (snd (podToPodLoop (logged cl) pod allPods acc (tr, w))))"
proof -
  obtain r tr' w' where k: "podToPodLoop (logged cl) pod allPods acc (tr, w) = (r, tr', w')"
    by (metis prod_cases3)
  from podToPodLoop_logged[OF k] k show ?thesis by simp
qed

lemma RunPodTests_grows:
  "prefix tr (fst (snd (RunPodTests (logged cl) pod dnsIPs nodeIPs allPods (tr, w))))"
proof -
  obtain r1 t1 w1 where a: "TestCoreDNSConnectivity (logged cl) pod dnsIPs (tr, w) = (r1, t1, w1)"
    by (metis prod_cases3)
  obtain r2 t2 w2 where b: "TestDNSResolution (logged cl) pod (t1, w1) = (r2, t2, w2)"
    by (metis prod_cases3)
  obtain r3 t3 w3 where c: "TestExternalTCP (logged cl) pod (t2, w2) = (r3, t3, w3)"
    by (metis prod_cases3)
  obtain r4 t4 w4 where d: "TestKubeletConnectivity (logged cl) pod nodeIPs (t3, w3) = (r4, t4, w4)"
    by (metis prod_cases3)
  obtain r5 t5 w5 where e: "TestPodToPod (logged cl) pod allPods (t4, w4) = (r5, t5, w5)"
    by (metis prod_cases3)
  have 1: "prefix tr t1"
    using coreDNSLoop_grows[of tr cl pod dnsIPs "[]" w] a by (simp add: TestCoreDNSConnectivity_def)
  have 2: "prefix t1 t2"
    using b by (auto simp: TestDNSResolution_def logged_Exec)
  have 3: "prefix t2 t3"
    using c by (auto simp: TestExternalTCP_def logged_Exec)
  have 4: "prefix t3 t4"
    using kubeletLoop_grows[of t3 cl pod nodeIPs "[]" w3] d by (simp add: TestKubeletConnectivity_def)
  have 5: "prefix t4 t5"
    using podToPodLoop_grows[of t4 cl pod allPods "[]" w4] e by (simp add: TestPodToPod_def)
  from 1 2 3 4 5 have "prefix tr t5" by (meson prefix_order.trans)
  with a b c d e show ?thesis by (simp add: RunPodTests_def)
qed

lemma runTasks_grows:
  "prefix tr (fst (snd (runTasks (logged cl) tasks dnsIPs nodeIPs pods acc (tr, w))))"
proof (induction tasks arbitrary: acc tr w)
  case Nil
  show ?case by simp
next
  case (Cons p tasks)
  obtain rs tr1 w1 where r: "RunPodTests (logged cl) p dnsIPs nodeIPs pods (tr, w) = (rs, tr1, w1)"
    by (metis prod_cases3)
  with RunPodTests_grows[of tr cl p dnsIPs nodeIPs pods w] have "prefix tr tr1" by simp
  with Cons.IH[of tr1 "acc @ rs" w1] r show ?case
    by (auto intro: prefix_order.trans)
qed

lemma runDeferred_grows:
  "prefix tr (fst (snd (runDeferred (logged cl) rep readyNodes testPods (tr, w))))"
proof -
  obtain r tr1 w1 where wt: "WaitForPodsReady (logged cl) testPods (tr, w) = (r, tr1, w1)"
    by (metis prod_cases3)
  with waitLoop_grows[of tr cl "[]" testPods "readyTicks (logged cl)" w]
  have 1: "prefix tr tr1" by (simp add: WaitForPodsReady_def)
  show ?thesis
  proof (cases r)
    case (Inl podName)
    with wt 1 show ?thesis by (simp add: runDeferred_def)
  next
    case (Inr readyPods)
    obtain d tr2 w2 where ds: "DiscoverCoreDNSPods (logged cl) (tr1, w1) = (d, tr2, w2)"
      by (metis prod_cases3)
    with Discover_grows[of tr1 cl w1] have 2: "prefix tr1 tr2" by simp
    obtain tr3 w3 where sl: "StartListeners (logged cl) readyPods (tr2, w2) = (tr3, w3)"
      by fastforce
    with StartListeners_grows[of tr2 cl readyPods w2] have 3: "prefix tr2 tr3" by simp
    let ?dns = "case d of Inl err \<Rightarrow> [] | Inr ips \<Rightarrow> ips"
    obtain rs tr4 w4 where ra:
      "RunAllTests (logged cl) readyPods ?dns (GetNodeInternalIPs readyNodes) (tr3, w3) = (rs, tr4, w4)"
      by (metis prod_cases3)
    with runTasks_grows[of tr3 cl
           "map (\<lambda>i. readyPods ! i) (schedule (sched (logged cl)) (length readyPods))"
           ?dns "GetNodeInternalIPs readyNodes" readyPods "[]" w3]
    have 4: "prefix tr3 tr4" by (simp add: RunAllTests_def)
    from 1 2 3 4 have "prefix tr tr4" by (meson prefix_order.trans)
    with wt Inr ds sl ra show ?thesis by (simp add: runDeferred_def Let_def)
  qed
qed

text \<open>
  The calls of a run, from its first call on, for every client: the namespace is
  created, then deleted and polled by the cleanup call that follows \<open>EnsureNamespace\<close>,
  then the nodes are listed, and only then is the first pod created.
\<close>

lemma Run_call_order:
  assumes run: "Run (logged cl) ([], w) = (res, tr, w')"
  shows "case res of
       Inl (ErrCreateNamespace err) \<Rightarrow> tr = [NamespacesCreate]
     | Inl (ErrListNodes err) \<Rightarrow>
         \<exists>k. tr = NamespacesCreate # NamespacesDelete # replicate k NamespacesGet @ [NodesList]
     | Inl ErrNoReadyNodes \<Rightarrow>
         \<exists>k. tr = NamespacesCreate # NamespacesDelete # replicate k NamespacesGet @ [NodesList]
     | Inl (ErrCreateTestPods nodeName err) \<Rightarrow>
         \<exists>k name rest. tr = NamespacesCreate # NamespacesDelete # replicate k NamespacesGet
                             @ NodesList # PodsCreate name # rest
     | Inl (ErrPodsNotReady podName) \<Rightarrow>
         \<exists>k name rest. tr = NamespacesCreate # NamespacesDelete # replicate k NamespacesGet
                             @ NodesList # PodsCreate name # rest
     | Inr report \<Rightarrow>
         \<exists>k name rest. tr = NamespacesCreate # NamespacesDelete # replicate k NamespacesGet
                             @ NodesList # PodsCreate name # rest"
proof -
  obtain e1 tr1 w1 where en: "EnsureNamespace (logged cl) ([], w) = (e1, tr1, w1)"
    by (metis prod_cases3)
  from EnsureNamespace_trace[OF en] have tr1: "tr1 = [NamespacesCreate]" by simp
  show ?thesis
  proof (cases e1)
    case (Some err)
    with run en tr1 have "res = Inl (ErrCreateNamespace err) \<and> tr = [NamespacesCreate]"
      by (auto simp: Run_def)
    then show ?thesis by simp
  next
    case None
    obtain c2 tr2 w2 where cl2: "CleanupTestPods (logged cl) (tr1, w1) = (c2, tr2, w2)"
      by (metis prod_cases3)
    from CleanupTestPods_trace[OF cl2] tr1 obtain k where
      tr2: "tr2 = NamespacesCreate # NamespacesDelete # replicate k NamespacesGet" by auto
    let ?tr3 = "tr2 @ [NodesList]"
    let ?w3 = "snd (nodes_List cl w2)"
    show ?thesis
    proof (cases "fst (nodes_List cl w2)")
      case (Inl err)
      with run en None cl2 have "res = Inl (ErrListNodes err) \<and> tr = ?tr3"
        by (auto simp: Run_def logged_nodes_List)
      with tr2 show ?thesis by simp
    next
      case (Inr nodes)
      show ?thesis
      proof (cases "filterReadyNodes nodes = []")
        case True
        with run en None cl2 Inr have "res = Inl ErrNoReadyNodes \<and> tr = ?tr3"
          by (auto simp: Run_def logged_nodes_List)
        with tr2 show ?thesis by simp
      next
        case False
        obtain r4 tr4 w4 where cr:
          "CreateTestPods (logged cl) (filterReadyNodes nodes) (?tr3, ?w3) = (r4, tr4, w4)"
          by (metis prod_cases3)
        let ?first = "testPodPrefix @ sanitizeNodeName (node_Name (hd (filterReadyNodes nodes)))"
        from createLoop_first[OF False, of ?tr3 cl "[]" ?w3] cr
        have p4: "prefix (?tr3 @ [PodsCreate ?first]) tr4"
          by (simp add: CreateTestPods_def)
        have shape: "\<exists>k name rest. t = NamespacesCreate # NamespacesDelete
              # replicate k NamespacesGet @ NodesList # PodsCreate name # rest"
          if "prefix tr4 t" for t
        proof -
          from p4 that have "prefix (?tr3 @ [PodsCreate ?first]) t"
            by (rule prefix_order.trans)
          then obtain rest where "t = (?tr3 @ [PodsCreate ?first]) @ rest"
            by (auto simp: prefix_def)
          with tr2 have "t = NamespacesCreate # NamespacesDelete
              # replicate k NamespacesGet @ NodesList # PodsCreate ?first # rest"
            by simp
          then show ?thesis by blast
        qed
        show ?thesis
        proof (cases r4)
          case (Inl failure)
          obtain nodeName err where f: "failure = (nodeName, err)" by (cases failure)
          obtain c5 tr5 w5 where cl5: "CleanupTestPods (logged cl) (tr4, w4) = (c5, tr5, w5)"
            by (metis prod_cases3)
          from run en None cl2 Inr False cr Inl f cl5
          have eq: "res = Inl (ErrCreateTestPods nodeName err)" and "tr = tr5"
            by (auto simp: Run_def logged_nodes_List Let_def)
          with CleanupTestPods_trace[OF cl5] have "prefix tr4 tr" by (auto simp: prefix_def)
          from shape[OF this] eq show ?thesis by simp
        next
          case (Inr testPods)
          let ?rep = "\<lparr> Timestamp = clock (logged cl) ([], w),
                NodeCount = int (length (filterReadyNodes nodes)), PodCount = 0,
                TestResults = [], Summary = \<lparr> Total = 0, Passed = 0, Failed = 0 \<rparr> \<rparr>"
          obtain r5 tr5 w5 where df: "runDeferred (logged cl) ?rep
              (filterReadyNodes nodes) testPods (tr4, w4) = (r5, tr5, w5)"
            by (metis prod_cases3)
          have g5: "prefix tr4 tr5"
            using runDeferred_grows[of tr4 cl ?rep "filterReadyNodes nodes" testPods w4]
            unfolding df by simp
          obtain c6 tr6 w6 where cl6: "CleanupTestPods (logged cl) (tr5, w5) = (c6, tr6, w6)"
            by (metis prod_cases3)
          from run en None cl2 \<open>fst (nodes_List cl w2) = Inr nodes\<close> False cr Inr df cl6
          have eq: "res = r5" and "tr = tr6"
            by (auto simp: Run_def logged_nodes_List Let_def)
          with CleanupTestPods_trace[OF cl6] have "prefix tr5 tr" by (auto simp: prefix_def)
          with g5 have "prefix tr4 tr" by (rule prefix_order.trans)
          note ex = shape[OF this]
          from runDeferred_result[OF df] show ?thesis
          proof (elim disjE exE)
            fix p assume "r5 = Inl (ErrPodsNotReady p)"
            with eq ex show ?thesis by simp
          next
            fix report assume "r5 = Inr report"
            with eq ex show ?thesis by simp
          qed
        qed
      qed
    qed
  qed
qed

text \<open>
  Claim C1 asks that the cleanup of a leftover namespace is over before the namespace
  is created, so that the namespace exists when the pods are created. \<open>Run\<close> calls
  \<open>EnsureNamespace\<close> first and \<open>CleanupTestPods\<close> second. On a cluster with one ready
  node, where the API server permits both calls and the deletion completes within the
  wait, the namespace that was just ensured is deleted, the creation of the pod is
  answered "not found", and \<open>Run\<close> fails; this is so whether the namespace was absent or
  left over from an earlier run.
\<close>

theorem Run_deletes_namespace_before_pods:
  "Run (logged (oneNode True True)) ([], emptyCluster) =
     (Inl (ErrCreateTestPods ''n1'' NotFound),
      [NamespacesCreate, NamespacesDelete, NamespacesGet, NodesList, PodsCreate ''nettest-n1'',
       NamespacesDelete],
      \<lparr> hasNamespace = False, podNames = [] \<rparr>)
   \<and> Run (logged (oneNode True True)) ([], \<lparr> hasNamespace = True, podNames = [''nettest-old''] \<rparr>) =
     (Inl (ErrCreateTestPods ''n1'' NotFound),
      [NamespacesCreate, NamespacesDelete, NamespacesGet, NodesList, PodsCreate ''nettest-n1'',
       NamespacesDelete],
      \<lparr> hasNamespace = False, podNames = [] \<rparr>)"
  by code_simp

text \<open>
  Claim C2, as stated, covers every exit path of \<open>Run\<close>. When the namespace cannot be
  created, \<open>Run\<close> returns after that one call and never calls \<open>CleanupTestPods\<close>.
\<close>

theorem Run_skips_cleanup_counterexample:
  "fst (Run (logged (oneNode False True)) ([], emptyCluster))
     = Inl (ErrCreateNamespace (OtherError ''forbidden''))
   \<and> NamespacesDelete \<notin> set (fst (snd (Run (logged (oneNode False True)) ([], emptyCluster))))"
  by code_simp

text \<open>
  Claim C2, amended: on every exit path of \<open>Run\<close> other than the failure of
  \<open>EnsureNamespace\<close>, \<open>CleanupTestPods\<close> has been called (its first call is the
  deletion of the namespace) before \<open>Run\<close> returns. After a pod-creation error, a
  readiness timeout and a successful run, the calls of \<open>CleanupTestPods\<close> are the last
  calls of the run; when listing the nodes fails or no node is ready, the cleanup is the
  one called right after \<open>EnsureNamespace\<close>, before the nodes are listed. When
  \<open>EnsureNamespace\<close> fails, the creation of the namespace is the only call.
\<close>

theorem Run_cleanup_invoked:
  assumes run: "Run (logged cl) ([], w) = (res, tr, w')"
  shows "((\<forall>err. res \<noteq> Inl (ErrCreateNamespace err)) \<longrightarrow> NamespacesDelete \<in> set tr)
     \<and> (case res of
           Inl (ErrCreateNamespace err) \<Rightarrow> tr = [NamespacesCreate]
         | Inl (ErrListNodes err) \<Rightarrow>
             \<exists>k. tr = NamespacesCreate # NamespacesDelete # replicate k NamespacesGet @ [NodesList]
         | Inl ErrNoReadyNodes \<Rightarrow>
             \<exists>k. tr = NamespacesCreate # NamespacesDelete # replicate k NamespacesGet @ [NodesList]
         | Inl (ErrCreateTestPods nodeName err) \<Rightarrow>
             \<exists>pre k. tr = pre @ NamespacesDelete # replicate k NamespacesGet
         | Inl (ErrPodsNotReady podName) \<Rightarrow>
             \<exists>pre k. tr = pre @ NamespacesDelete # replicate k NamespacesGet
         | Inr report \<Rightarrow>
             \<exists>pre k. tr = pre @ NamespacesDelete # replicate k NamespacesGet)"
proof -
  note paths = Run_exit_paths[OF run]
  have "NamespacesDelete \<in> set tr" if "\<forall>err. res \<noteq> Inl (ErrCreateNamespace err)"
  proof (cases res)
    case (Inl e)
    with paths that show ?thesis by (cases e) auto
  next
    case (Inr report)
    with paths show ?thesis by auto
  qed
  with paths show ?thesis by blast
qed

theorem Run_cleanup_invoked_witness:
  "Run (logged (oneNode True False)) ([], emptyCluster) =
     (Inr \<lparr> Timestamp = 0, NodeCount = 1, PodCount = 1,
             TestResults =
               [\<lparr> SourceNode = ''n1'', SourcePod = ''nettest-n1'', TestType = ''dns'',
                   Target = ''github.com'', Success = True, Error = [] \<rparr>,
                \<lparr> SourceNode = ''n1'', SourcePod = ''nettest-n1'', TestType = ''external-tcp'',
                   Target = ''github.com:443'', Success = True, Error = [] \<rparr>],
             Summary = \<lparr> Total = 2, Passed = 2, Failed = 0 \<rparr> \<rparr>,
      [NamespacesCreate, NamespacesDelete, NodesList, PodsCreate ''nettest-n1'',
       PodsGet ''nettest-n1'', EndpointsGet ''kube-dns'', EndpointsGet ''coredns'',
       EndpointsGet ''rke2-coredns-rke2-coredns'', PodsList,
       Exec ''nettest-n1'' [''sh'', ''-c'', ''nc -l -p 8080 &''],
       Exec ''nettest-n1'' [''nslookup'', ''github.com''],
       Exec ''nettest-n1'' [''nc'', ''-z'', ''-w'', ''5'', ''github.com'', ''443''],
       NamespacesDelete],
      \<lparr> hasNamespace = True, podNames = [''nettest-n1''] \<rparr>)
   \<and> NamespacesDelete \<in> set (fst (snd (Run (logged (oneNode True False)) ([], emptyCluster))))
   \<and> (\<exists>pre k. fst (snd (Run (logged (oneNode True False)) ([], emptyCluster)))
                 = pre @ NamespacesDelete # replicate k NamespacesGet)"
proof -
  let ?report = "\<lparr> Timestamp = 0, NodeCount = 1, PodCount = 1,
             TestResults =
               [\<lparr> SourceNode = ''n1'', SourcePod = ''nettest-n1'', TestType = ''dns'',
                   Target = ''github.com'', Success = True, Error = [] \<rparr>,
                \<lparr> SourceNode = ''n1'', SourcePod = ''nettest-n1'', TestType = ''external-tcp'',
                   Target = ''github.com:443'', Success = True, Error = [] \<rparr>],
             Summary = \<lparr> Total = 2, Passed = 2, Failed = 0 \<rparr> \<rparr>"
  let ?tr = "[NamespacesCreate, NamespacesDelete, NodesList, PodsCreate ''nettest-n1'',
       PodsGet ''nettest-n1'', EndpointsGet ''kube-dns'', EndpointsGet ''coredns'',
       EndpointsGet ''rke2-coredns-rke2-coredns'', PodsList,
       Exec ''nettest-n1'' [''sh'', ''-c'', ''nc -l -p 8080 &''],
       Exec ''nettest-n1'' [''nslookup'', ''github.com''],
       Exec ''nettest-n1'' [''nc'', ''-z'', ''-w'', ''5'', ''github.com'', ''443''],
       NamespacesDelete]"
  let ?w = "\<lparr> hasNamespace = True, podNames = [''nettest-n1''] \<rparr>"
  have run: "Run (logged (oneNode True False)) ([], emptyCluster) = (Inr ?report, ?tr, ?w)"
    by code_simp
  from Run_cleanup_invoked[OF run]
  have "NamespacesDelete \<in> set ?tr
      \<and> (\<exists>pre k. ?tr = pre @ NamespacesDelete # replicate k NamespacesGet)"
    by simp
  with run show ?thesis by simp
qed

end
